theory Spec2Isabelle
  imports Main
begin

section \<open>Data model\<close>

text \<open>
  Modelled from the spec: the \<open>ConnectionState\<close> enumeration (the file
  \<open>./connectionState\<close> that the handler imports is not among the sources). The spec
  gives it four values; the handler itself only ever assigns \<open>CatchingUp\<close>,
  \<open>Connected\<close> and \<open>Disconnected\<close>.
\<close>

datatype ConnectionState = Disconnected | EstablishingConnection | CatchingUp | Connected

text \<open>\<open>ConnectionMode\<close> is the string union \<open>"write" | "read"\<close>.\<close>

datatype ConnectionMode = Read | Write

text \<open>The \<open>source\<close> argument of \<open>applyForConnectedState\<close>, a union of four string literals.\<close>

datatype Source = RemoveMemberEvent | AddMemberEvent | Timeout | ContainerSaved

text \<open>
  Every \<open>assert\<close> of the source is a branch of the model. An assertion that fails throws;
  the fields written before the throw keep their new values, so an operation returns the
  state it reached together with the assertion that stopped it, if any.
\<close>

datatype error =
    Assert_0x2ac    \<comment> \<open>Connected when timeout waiting for leave from previous session fired\<close>
  | Assert_0x234    \<comment> \<open>has joinOpTimer\<close>
  | Assert_0x235    \<comment> \<open>no joinOpTimer\<close>
  | Assert_0x2a5    \<comment> \<open>join timer\<close>
  | Assert_0x236    \<comment> \<open>In all cases it should be already installed\<close>
  | Assert_0x2e2    \<comment> \<open>Must only wait for leave message when clientId in quorum\<close>
  | Assert_0x30a    \<comment> \<open>shouldClientJoinWrite should imply this is a writeConnection\<close>
  | Assert_0x2a6    \<comment> \<open>waitingForLeaveOp should imply writeConnection\<close>
  | Assert_0x1d8    \<comment> \<open>Should only transition from Connecting state\<close>
  | Assert_connectivity_transitions
  | Assert_catchUpMonitor_should_be_set
  | Assert_catchUpMonitor_should_be_gone
  | Assert_invariant_broken

text \<open>
  A quorum member. The handler reads membership and writes one field,
  \<open>shouldHaveLeft\<close>; the quorum is a map from client id to member, and
  \<open>getMember\<close> is the lookup.
\<close>

record ILocalSequencedClient =
  shouldHaveLeft :: bool

type_synonym IQuorumClients = "string \<Rightarrow> ILocalSequencedClient option"

definition getMember :: "IQuorumClients \<Rightarrow> string \<Rightarrow> ILocalSequencedClient option" where
  "getMember q c = q c"

text \<open>
  Modelled from the spec: the \<open>Timer\<close> class of common-utils, which is not among the
  sources. A one-shot timer that is restartable and idempotent to cancel. \<open>hasTimer\<close> is
  the flag the handler reads; \<open>armings\<close> counts the calls of \<open>start\<close> and \<open>restart\<close>, so
  that a timer left running can be told from one that was started anew. Durations are
  not modelled: when a timer fires is decided by the environment.
\<close>

record Timer =
  hasTimer :: bool
  armings :: nat

definition Timer_new :: Timer where
  "Timer_new = \<lparr>hasTimer = False, armings = 0\<rparr>"

definition Timer_start :: "Timer \<Rightarrow> Timer" where
  "Timer_start t = t\<lparr>hasTimer := True, armings := Suc (armings t)\<rparr>"

definition Timer_restart :: "Timer \<Rightarrow> Timer" where
  "Timer_restart t = t\<lparr>hasTimer := True, armings := Suc (armings t)\<rparr>"

definition Timer_clear :: "Timer \<Rightarrow> Timer" where
  "Timer_clear t = t\<lparr>hasTimer := False\<rparr>"

text \<open>The timer has run out: it is no longer armed when its callback runs.\<close>

definition Timer_expire :: "Timer \<Rightarrow> Timer" where
  "Timer_expire t = t\<lparr>hasTimer := False\<rparr>"

text \<open>The \<open>details\<close> objects handed to telemetry (the source serialises them to JSON).\<close>

datatype details =
    ConnectedStateRejectedDetails Source "string option" "string option" bool bool
      \<comment> \<open>source, pendingClientId, clientId, waitingForLeaveOp, inQuorum\<close>
  | NoWaitOnDisconnectedDetails bool bool bool
      \<comment> \<open>inQuorum, waitingForLeaveOp, hadOutstandingOps\<close>
  | NoJoinOpDetails bool "string option" bool bool
      \<comment> \<open>quorumInitialized, pendingClientId, inQuorum, waitingForLeaveOp\<close>
  | WaitBeforeClientLeaveDetails "string option" bool
      \<comment> \<open>waitOnClientId, hadOutstandingOps\<close>

datatype PerformanceEvent = PerformanceEvent string details
  \<comment> \<open>eventName, details\<close>

text \<open>What the handler sends to its owner and to the logger, in the order sent.\<close>

datatype effect =
    ConnectionStateChanged ConnectionState ConnectionState "string option"
      \<comment> \<open>\<open>handler.connectionStateChanged(value, oldState, reason)\<close>\<close>
  | SendTelemetryEvent string "string option" details
      \<comment> \<open>\<open>logger.sendTelemetryEvent\<close>: eventName, category, details\<close>
  | SendErrorEvent string ConnectionState
      \<comment> \<open>\<open>logger.sendErrorEvent\<close>: eventName, value\<close>
  | LogConnectionIssue string "details option"
      \<comment> \<open>\<open>handler.logConnectionIssue(eventName, details)\<close>\<close>
  | PerformanceEventStart PerformanceEvent
  | PerformanceEventEnd PerformanceEvent Source
      \<comment> \<open>\<open>waitEvent.end({ source })\<close>\<close>

text \<open>
  The fields of the class \<open>ConnectionStateHandler\<close>, followed by what its
  \<open>handler\<close> inputs answer (\<open>quorumClients()\<close>, \<open>shouldClientJoinWrite()\<close>) and by the
  outputs sent so far. The quorum is part of the state because the transition to
  \<open>Connected\<close> writes \<open>shouldHaveLeft\<close> into one of its members.
\<close>

record ConnectionStateHandler =
  connectionState :: ConnectionState
  pendingClientId :: "string option"
  clientId :: "string option"
  prevClientLeftTimer :: Timer
  joinOpTimer :: Timer
  waitEvent :: "PerformanceEvent option"
  quorumClients :: "IQuorumClients option"
  shouldClientJoinWrite :: bool
  emitted :: "effect list"

type_synonym outcome = "ConnectionStateHandler \<times> error option"

record IConnectionDetails =
  details_clientId :: string

section \<open>The connection state handler\<close>

definition new_handler :: "bool \<Rightarrow> string option \<Rightarrow> ConnectionStateHandler" where
  "new_handler joinWrite initialClientId =
     \<lparr>connectionState = Disconnected,
      pendingClientId = None,
      clientId = initialClientId,
      prevClientLeftTimer = Timer_new,
      joinOpTimer = Timer_new,
      waitEvent = None,
      quorumClients = None,
      shouldClientJoinWrite = joinWrite,
      emitted = []\<rparr>"

definition emit :: "effect \<Rightarrow> ConnectionStateHandler \<Rightarrow> ConnectionStateHandler" where
  "emit x h = h\<lparr>emitted := emitted h @ [x]\<rparr>"

definition waitingForLeaveOp :: "ConnectionStateHandler \<Rightarrow> bool" where
  "waitingForLeaveOp h = hasTimer (prevClientLeftTimer h)"

text \<open>\<open>quorumClients?.getMember(id)\<close>: undefined when the quorum itself is.\<close>

definition getMember_opt :: "IQuorumClients option \<Rightarrow> string \<Rightarrow> ILocalSequencedClient option" where
  "getMember_opt qo c = (case qo of None \<Rightarrow> None | Some q \<Rightarrow> getMember q c)"

text \<open>\<open>this.pendingClientId ?? ""\<close>\<close>

definition pendingClientId_or_empty :: "ConnectionStateHandler \<Rightarrow> string" where
  "pendingClientId_or_empty h = (case pendingClientId h of None \<Rightarrow> [] | Some p \<Rightarrow> p)"

definition startJoinOpTimer :: "ConnectionStateHandler \<Rightarrow> outcome" where
  "startJoinOpTimer h =
     (if hasTimer (joinOpTimer h) then (h, Some Assert_0x234)
      else (h\<lparr>joinOpTimer := Timer_start (joinOpTimer h)\<rparr>, None))"

definition stopJoinOpTimer :: "ConnectionStateHandler \<Rightarrow> outcome" where
  "stopJoinOpTimer h =
     (if \<not> hasTimer (joinOpTimer h) then (h, Some Assert_0x235)
      else (h\<lparr>joinOpTimer := Timer_clear (joinOpTimer h)\<rparr>, None))"

text \<open>Sequencing: a throw skips the rest of the operation.\<close>

definition and_then :: "outcome \<Rightarrow> (ConnectionStateHandler \<Rightarrow> outcome) \<Rightarrow> outcome" where
  "and_then r k = (case r of (h, None) \<Rightarrow> k h | (h, Some e) \<Rightarrow> (h, Some e))"

text \<open>
  The client looked up at the top of \<open>setConnectionState\<close>: the quorum entry of the
  current \<open>_clientId\<close>, undefined when there is no client id or no quorum.
\<close>

definition lookup_client :: "ConnectionStateHandler \<Rightarrow> ILocalSequencedClient option" where
  "lookup_client h =
     (case clientId h of None \<Rightarrow> None | Some c \<Rightarrow> getMember_opt (quorumClients h) c)"

text \<open>\<open>client.shouldHaveLeft = true\<close>, a write into the member object held by the quorum.\<close>

definition mark_shouldHaveLeft :: "ConnectionStateHandler \<Rightarrow> ConnectionStateHandler" where
  "mark_shouldHaveLeft h =
     (case clientId h of None \<Rightarrow> h
      | Some c \<Rightarrow>
         (case quorumClients h of None \<Rightarrow> h
          | Some q \<Rightarrow>
             (case getMember q c of None \<Rightarrow> h
              | Some m \<Rightarrow> h\<lparr>quorumClients := Some (q(c \<mapsto> m\<lparr>shouldHaveLeft := True\<rparr>))\<rparr>)))"

text \<open>The \<open>Disconnected\<close> branch of \<open>setConnectionState\<close>, after the state was written.\<close>

definition disconnected_branch ::
    "ILocalSequencedClient option \<Rightarrow> ConnectionStateHandler \<Rightarrow> outcome" where
  "disconnected_branch client h =
     and_then
       (let h1 = h\<lparr>pendingClientId := None\<rparr>
        in if hasTimer (joinOpTimer h1) then stopJoinOpTimer h1 else (h1, None))
       (\<lambda>h2.
          if client \<noteq> None \<and> shouldClientJoinWrite h2 \<and> hasTimer (prevClientLeftTimer h2) = False
          then (h2\<lparr>prevClientLeftTimer := Timer_restart (prevClientLeftTimer h2)\<rparr>, None)
          else (emit (SendTelemetryEvent ''noWaitOnDisconnected'' None
                       (NoWaitOnDisconnectedDetails (client \<noteq> None) (waitingForLeaveOp h2)
                          (shouldClientJoinWrite h2))) h2, None))"

text \<open>The \<open>Connected\<close> branch of \<open>setConnectionState\<close>, after the state was written.\<close>

definition connected_branch ::
    "ConnectionState \<Rightarrow> ConnectionStateHandler \<Rightarrow> outcome" where
  "connected_branch oldState h =
     (if oldState \<noteq> CatchingUp then (h, Some Assert_0x1d8)
      else (let h1 = mark_shouldHaveLeft h
            in (h1\<lparr>clientId := pendingClientId h1\<rparr>, None)))"

text \<open>
  \<open>setConnectionState(value, reason)\<close>. Its overloads admit \<open>Connected\<close> and
  \<open>Disconnected\<close> only; for the two other values the body as written does nothing
  between writing the state and reporting the transition.
\<close>

definition setConnectionState ::
    "ConnectionState \<Rightarrow> string option \<Rightarrow> ConnectionStateHandler \<Rightarrow> outcome" where
  "setConnectionState value reason h =
     (if connectionState h = value
      then (emit (SendErrorEvent ''setConnectionStateSame'' value) h, None)
      else
        (let oldState = connectionState h;
             h1 = h\<lparr>connectionState := value\<rparr>;
             client = lookup_client h1
         in and_then
              (if value = Connected then connected_branch oldState h1
               else if value = Disconnected then disconnected_branch client h1
               else (h1, None))
              (\<lambda>h2. (emit (ConnectionStateChanged (connectionState h2) oldState reason) h2, None))))"

definition category_of :: "Source \<Rightarrow> string" where
  "category_of source = (if source = Timeout then ''error'' else ''generic'')"

text \<open>The four conjuncts of the promotion test in \<open>applyForConnectedState\<close>.\<close>

definition may_promote :: "IQuorumClients \<Rightarrow> ConnectionStateHandler \<Rightarrow> bool" where
  "may_promote q h =
     (pendingClientId h \<noteq> clientId h
      \<and> (case pendingClientId h of None \<Rightarrow> False | Some p \<Rightarrow> getMember q p \<noteq> None)
      \<and> \<not> waitingForLeaveOp h)"

definition end_waitEvent :: "Source \<Rightarrow> ConnectionStateHandler \<Rightarrow> ConnectionStateHandler" where
  "end_waitEvent source h =
     (case waitEvent h of None \<Rightarrow> h | Some ev \<Rightarrow> emit (PerformanceEventEnd ev source) h)"

definition rejected_event :: "Source \<Rightarrow> IQuorumClients \<Rightarrow> ConnectionStateHandler \<Rightarrow> effect" where
  "rejected_event source q h =
     SendTelemetryEvent ''connectedStateRejected'' (Some (category_of source))
       (ConnectedStateRejectedDetails source (pendingClientId h) (clientId h)
          (waitingForLeaveOp h) (getMember q (pendingClientId_or_empty h) \<noteq> None))"

definition applyForConnectedState :: "Source \<Rightarrow> ConnectionStateHandler \<Rightarrow> outcome" where
  "applyForConnectedState source h =
     (case quorumClients h of
        None \<Rightarrow> (h, Some Assert_0x236)
      | Some q \<Rightarrow>
          if \<not> (waitingForLeaveOp h = False
                \<or> (case clientId h of None \<Rightarrow> False | Some c \<Rightarrow> getMember q c \<noteq> None))
          then (h, Some Assert_0x2e2)
          else if may_promote q h
          then setConnectionState Connected None (end_waitEvent source h)
          else (emit (rejected_event source q h) h, None))"

text \<open>The callback given to \<open>prevClientLeftTimer\<close> in the constructor.\<close>

definition prevClientLeftTimer_callback :: "ConnectionStateHandler \<Rightarrow> outcome" where
  "prevClientLeftTimer_callback h =
     (if connectionState h = Connected then (h, Some Assert_0x2ac)
      else applyForConnectedState Timeout h)"

text \<open>The callback given to \<open>joinOpTimer\<close> in the constructor.\<close>

definition joinOpTimer_callback :: "ConnectionStateHandler \<Rightarrow> outcome" where
  "joinOpTimer_callback h =
     (if connectionState h \<noteq> CatchingUp then (h, None)
      else (emit (LogConnectionIssue ''NoJoinOp''
                    (Some (NoJoinOpDetails (quorumClients h \<noteq> None) (pendingClientId h)
                       (getMember_opt (quorumClients h) (pendingClientId_or_empty h) \<noteq> None)
                       (waitingForLeaveOp h)))) h, None))"

definition dispose :: "ConnectionStateHandler \<Rightarrow> outcome" where
  "dispose h =
     (if hasTimer (joinOpTimer h) then (h, Some Assert_0x2a5)
      else (h\<lparr>prevClientLeftTimer := Timer_clear (prevClientLeftTimer h)\<rparr>, None))"

definition containerSaved :: "ConnectionStateHandler \<Rightarrow> outcome" where
  "containerSaved h =
     (if waitingForLeaveOp h
      then applyForConnectedState ContainerSaved
             (h\<lparr>prevClientLeftTimer := Timer_clear (prevClientLeftTimer h)\<rparr>)
      else (h, None))"

definition start_waitEvent :: "ConnectionStateHandler \<Rightarrow> ConnectionStateHandler" where
  "start_waitEvent h =
     (let ev = PerformanceEvent ''WaitBeforeClientLeave''
                 (WaitBeforeClientLeaveDetails (clientId h) (shouldClientJoinWrite h))
      in emit (PerformanceEventStart ev) (h\<lparr>waitEvent := Some ev\<rparr>))"

definition receivedAddMemberEvent :: "string \<Rightarrow> ConnectionStateHandler \<Rightarrow> outcome" where
  "receivedAddMemberEvent c h =
     (if Some c = pendingClientId h
      then and_then
             (if hasTimer (joinOpTimer h) then stopJoinOpTimer h
              else (emit (LogConnectionIssue ''ReceivedJoinOp'' None) h, None))
             (\<lambda>h1. applyForConnectedState AddMemberEvent
                     (if waitingForLeaveOp h1 then start_waitEvent h1 else h1))
      else (h, None))"

definition receivedRemoveMemberEvent :: "string \<Rightarrow> ConnectionStateHandler \<Rightarrow> outcome" where
  "receivedRemoveMemberEvent c h =
     (if clientId h = Some c
      then applyForConnectedState RemoveMemberEvent
             (h\<lparr>prevClientLeftTimer := Timer_clear (prevClientLeftTimer h)\<rparr>)
      else (h, None))"

definition receivedDisconnectEvent :: "string \<Rightarrow> ConnectionStateHandler \<Rightarrow> outcome" where
  "receivedDisconnectEvent reason h = setConnectionState Disconnected (Some reason) h"

definition receivedConnectEvent ::
    "ConnectionMode \<Rightarrow> IConnectionDetails \<Rightarrow> ConnectionStateHandler \<Rightarrow> outcome" where
  "receivedConnectEvent connectionMode details h =
     (let oldState = connectionState h;
          h1 = h\<lparr>connectionState := CatchingUp\<rparr>;
          writeConnection = (connectionMode = Write)
      in if \<not> (\<not> shouldClientJoinWrite h1 \<or> writeConnection) then (h1, Some Assert_0x30a)
         else if \<not> (\<not> waitingForLeaveOp h1 \<or> writeConnection) then (h1, Some Assert_0x2a6)
         else
           (let quorum = quorumClients h1;
                h2 = h1\<lparr>pendingClientId := Some (details_clientId details)\<rparr>;
                h3 = emit (ConnectionStateChanged CatchingUp oldState None) h2;
                waitingForJoinOp =
                  (writeConnection \<and> getMember_opt quorum (details_clientId details) = None)
            in if waitingForJoinOp then startJoinOpTimer h3
               else if \<not> waitingForLeaveOp h3 then setConnectionState Connected None h3
               else (h3, None)))"

text \<open>
  \<open>initProtocol(protocol)\<close>, with \<open>protocol.quorum\<close> as its argument. The two listeners
  it registers are the operations \<open>receivedAddMemberEvent\<close> and
  \<open>receivedRemoveMemberEvent\<close>; what is left is the arming of the leave timer.
\<close>

definition initProtocol :: "IQuorumClients \<Rightarrow> ConnectionStateHandler \<Rightarrow> outcome" where
  "initProtocol quorum h =
     (if (case clientId h of None \<Rightarrow> False | Some c \<Rightarrow> getMember quorum c \<noteq> None)
      then (h\<lparr>prevClientLeftTimer := Timer_restart (prevClientLeftTimer h)\<rparr>, None)
      else (h, None))"

section \<open>The environment\<close>

text \<open>
  Modelled from the spec: the quorum, the timers' firing and the owner, none of which
  is among the sources. The quorum is the set of client ids that are currently members;
  it adds a member and then notifies \<open>addMember\<close>, removes a member and then notifies
  \<open>removeMember\<close>. A timer that fires is no longer armed when its callback runs; a
  callback that was already queued may also run after the timer was cancelled (the late
  callbacks). The owner installs the protocol handler, whose quorum is what
  \<open>quorumClients()\<close> returns from then on, and calls \<open>initProtocol\<close> with it; the owner may
  change what \<open>shouldClientJoinWrite()\<close> answers at any time.
\<close>

datatype event =
    InitProtocol IQuorumClients
  | ReceivedConnect ConnectionMode IConnectionDetails
  | ReceivedDisconnect string
  | AddMember string ILocalSequencedClient
  | RemoveMember string
  | JoinOpTimerFires
  | JoinOpTimerLateCallback
  | PrevClientLeftTimerFires
  | PrevClientLeftTimerLateCallback
  | ContainerIsSaved
  | Disposed
  | OwnerJoinWrite bool

text \<open>
  Modelled from the spec: when an event can occur. The protocol is initialised once,
  the quorum notifies only once it exists, and a timer runs out only while armed.
\<close>

fun enabled :: "event \<Rightarrow> ConnectionStateHandler \<Rightarrow> bool" where
  "enabled (InitProtocol q) h = (quorumClients h = None)"
| "enabled (AddMember c m) h = (quorumClients h \<noteq> None)"
| "enabled (RemoveMember c) h = (quorumClients h \<noteq> None)"
| "enabled JoinOpTimerFires h = hasTimer (joinOpTimer h)"
| "enabled PrevClientLeftTimerFires h = hasTimer (prevClientLeftTimer h)"
| "enabled _ h = True"

text \<open>Modelled from the spec: the quorum adds a member, or removes one.\<close>

definition quorum_add :: "string \<Rightarrow> ILocalSequencedClient \<Rightarrow> ConnectionStateHandler \<Rightarrow> ConnectionStateHandler" where
  "quorum_add c m h =
     (case quorumClients h of None \<Rightarrow> h | Some q \<Rightarrow> h\<lparr>quorumClients := Some (q(c \<mapsto> m))\<rparr>)"

definition quorum_remove :: "string \<Rightarrow> ConnectionStateHandler \<Rightarrow> ConnectionStateHandler" where
  "quorum_remove c h =
     (case quorumClients h of None \<Rightarrow> h | Some q \<Rightarrow> h\<lparr>quorumClients := Some (q(c := None))\<rparr>)"

text \<open>
  Modelled from the spec: what the environment does with each event before it calls the
  handler. The calls themselves are the operations of the source.
\<close>

fun step :: "event \<Rightarrow> ConnectionStateHandler \<Rightarrow> outcome" where
  "step (InitProtocol q) h = initProtocol q (h\<lparr>quorumClients := Some q\<rparr>)"
| "step (ReceivedConnect connectionMode details) h = receivedConnectEvent connectionMode details h"
| "step (ReceivedDisconnect reason) h = receivedDisconnectEvent reason h"
| "step (AddMember c m) h = receivedAddMemberEvent c (quorum_add c m h)"
| "step (RemoveMember c) h = receivedRemoveMemberEvent c (quorum_remove c h)"
| "step JoinOpTimerFires h = joinOpTimer_callback (h\<lparr>joinOpTimer := Timer_expire (joinOpTimer h)\<rparr>)"
| "step JoinOpTimerLateCallback h = joinOpTimer_callback h"
| "step PrevClientLeftTimerFires h =
     prevClientLeftTimer_callback (h\<lparr>prevClientLeftTimer := Timer_expire (prevClientLeftTimer h)\<rparr>)"
| "step PrevClientLeftTimerLateCallback h = prevClientLeftTimer_callback h"
| "step ContainerIsSaved h = containerSaved h"
| "step Disposed h = dispose h"
| "step (OwnerJoinWrite b) h = (h\<lparr>shouldClientJoinWrite := b\<rparr>, None)"

text \<open>
  A run delivers the events in order. An event that cannot occur in the current state is
  skipped, and a failed assertion ends the run with the state reached.
\<close>

fun run :: "event list \<Rightarrow> ConnectionStateHandler \<Rightarrow> outcome" where
  "run [] h = (h, None)"
| "run (e # es) h = (if enabled e h then and_then (step e h) (run es) else run es h)"

section \<open>Invariants of the handler\<close>

text \<open>\<open>clientId\<close> is present and is a member of the quorum.\<close>

definition clientId_in_quorum :: "ConnectionStateHandler \<Rightarrow> bool" where
  "clientId_in_quorum h =
     (case clientId h of None \<Rightarrow> False
      | Some c \<Rightarrow> getMember_opt (quorumClients h) c \<noteq> None)"

text \<open>
  What holds of the handler's fields whatever has happened to it: the state is never
  \<open>EstablishingConnection\<close>; while \<open>Disconnected\<close> there is no pending id and the join-op
  timer is not armed; while \<open>Connected\<close> the pending id is present and is the client id;
  and the leave timer is armed only while \<open>clientId\<close> is a member of the quorum.
\<close>

definition core_inv :: "ConnectionStateHandler \<Rightarrow> bool" where
  "core_inv h =
     (connectionState h \<noteq> EstablishingConnection
      \<and> (connectionState h = Disconnected \<longrightarrow>
            pendingClientId h = None \<and> \<not> hasTimer (joinOpTimer h))
      \<and> (connectionState h = Connected \<longrightarrow>
            pendingClientId h \<noteq> None \<and> clientId h = pendingClientId h)
      \<and> (hasTimer (prevClientLeftTimer h) \<longrightarrow> clientId_in_quorum h))"

text \<open>
  The arming test of the \<open>Disconnected\<close> branch: the client found in the quorum, the
  owner expecting a write connection, and the leave timer not running yet.
\<close>

definition leave_wait_armed_on_disconnect :: "ConnectionStateHandler \<Rightarrow> bool" where
  "leave_wait_armed_on_disconnect h =
     (lookup_client h \<noteq> None \<and> shouldClientJoinWrite h \<and> \<not> hasTimer (prevClientLeftTimer h))"

section \<open>Emitted transitions and the transition graph\<close>

text \<open>The transitions reported to the owner, each as the pair (old state, new state).\<close>

fun transitions_of :: "effect list \<Rightarrow> (ConnectionState \<times> ConnectionState) list" where
  "transitions_of [] = []"
| "transitions_of (ConnectionStateChanged value oldState reason # xs) =
     (oldState, value) # transitions_of xs"
| "transitions_of (x # xs) = transitions_of xs"

definition trace :: "ConnectionStateHandler \<Rightarrow> (ConnectionState \<times> ConnectionState) list" where
  "trace h = transitions_of (emitted h)"

text \<open>The four legal transitions of the spec, from the first state to the second.\<close>

fun legal_transition :: "ConnectionState \<Rightarrow> ConnectionState \<Rightarrow> bool" where
  "legal_transition Disconnected CatchingUp = True"
| "legal_transition CatchingUp Connected = True"
| "legal_transition CatchingUp Disconnected = True"
| "legal_transition Connected Disconnected = True"
| "legal_transition _ _ = False"

text \<open>A walk on the graph from a given state: every step legal and starting where the last ended.\<close>

fun dfa_walk :: "ConnectionState \<Rightarrow> (ConnectionState \<times> ConnectionState) list \<Rightarrow> bool" where
  "dfa_walk s [] = True"
| "dfa_walk s ((old, new) # ts) = (old = s \<and> legal_transition old new \<and> dfa_walk new ts)"

fun walk_end :: "ConnectionState \<Rightarrow> (ConnectionState \<times> ConnectionState) list \<Rightarrow> ConnectionState" where
  "walk_end s [] = s"
| "walk_end s ((old, new) # ts) = walk_end new ts"

fun is_connect :: "event \<Rightarrow> bool" where
  "is_connect (ReceivedConnect connectionMode details) = True"
| "is_connect _ = False"

text \<open>Transitions by which no state is entered that only \<open>receivedConnectEvent\<close> enters.\<close>

fun promotions_from_CatchingUp_only :: "(ConnectionState \<times> ConnectionState) list \<Rightarrow> bool" where
  "promotions_from_CatchingUp_only [] = True"
| "promotions_from_CatchingUp_only ((old, new) # ts) =
     (new \<noteq> CatchingUp \<and> (new = Connected \<longrightarrow> old = CatchingUp)
      \<and> promotions_from_CatchingUp_only ts)"

text \<open>What one operation did, seen from the state and trace it started with.\<close>

definition quiet_step ::
    "ConnectionState \<Rightarrow> (ConnectionState \<times> ConnectionState) list \<Rightarrow> outcome \<Rightarrow> bool" where
  "quiet_step s t out =
     (trace (fst out) = t \<and> (snd out = None \<longrightarrow> connectionState (fst out) = s))"

definition moved_step ::
    "ConnectionState \<Rightarrow> (ConnectionState \<times> ConnectionState) list \<Rightarrow> outcome \<Rightarrow> bool" where
  "moved_step s t out =
     (snd out = None \<and> trace (fst out) = t @ [(s, connectionState (fst out))]
      \<and> legal_transition s (connectionState (fst out))
      \<and> connectionState (fst out) \<noteq> CatchingUp)"

definition dfa_step ::
    "ConnectionState \<Rightarrow> (ConnectionState \<times> ConnectionState) list \<Rightarrow> outcome \<Rightarrow> bool" where
  "dfa_step s t out = (quiet_step s t out \<or> moved_step s t out)"

text \<open>
  Every connection in the run is given a client id other than the one the handler holds
  as \<open>clientId\<close> at that moment (the relay service assigns an id per connection).
\<close>

fun fresh_event :: "event \<Rightarrow> ConnectionStateHandler \<Rightarrow> bool" where
  "fresh_event (ReceivedConnect connectionMode details) h =
     (clientId h \<noteq> Some (details_clientId details))"
| "fresh_event _ h = True"

fun fresh_connects :: "event list \<Rightarrow> ConnectionStateHandler \<Rightarrow> bool" where
  "fresh_connects [] h = True"
| "fresh_connects (e # es) h =
     (if enabled e h
      then fresh_event e h \<and> (snd (step e h) = None \<longrightarrow> fresh_connects es (fst (step e h)))
      else fresh_connects es h)"

section \<open>Scenarios\<close>

text \<open>
  The start of scenario S4 of the spec: a write connection \<open>c_old\<close> that has joined, with
  the owner expecting a write connection next time. The handler ends \<open>Connected\<close> with
  \<open>c_old\<close> in the quorum.
\<close>

definition S4_events :: "event list" where
  "S4_events =
     [InitProtocol Map.empty,
      ReceivedConnect Write \<lparr>details_clientId = ''c_old''\<rparr>,
      AddMember ''c_old'' \<lparr>shouldHaveLeft = False\<rparr>]"

definition S4_connected :: ConnectionStateHandler where
  "S4_connected = fst (run S4_events (new_handler True None))"

text \<open>
  Scenario S2 of the spec: a first write connection \<open>c2\<close> waits for its join. The second
  state is the one in which \<open>receivedAddMemberEvent\<close> calls
  \<open>applyForConnectedState\<close> once the quorum has added \<open>c2\<close>: the member is in the
  quorum and the join-op timer was stopped.
\<close>

definition S2_waiting :: ConnectionStateHandler where
  "S2_waiting =
     fst (run [InitProtocol Map.empty, ReceivedConnect Write \<lparr>details_clientId = ''c2''\<rparr>]
            (new_handler False None))"

definition S2_joined :: ConnectionStateHandler where
  "S2_joined =
     (quorum_add ''c2'' \<lparr>shouldHaveLeft = False\<rparr> S2_waiting)
       \<lparr>joinOpTimer := Timer_clear (joinOpTimer S2_waiting)\<rparr>"

section \<open>The two client ids\<close>

text \<open>The operation left the connection state and both client ids as they were.\<close>

definition ids_kept :: "ConnectionStateHandler \<Rightarrow> ConnectionStateHandler \<Rightarrow> bool" where
  "ids_kept h h' =
     (connectionState h' = connectionState h \<and> clientId h' = clientId h
      \<and> pendingClientId h' = pendingClientId h)"

text \<open>Outside \<open>Connected\<close>, a client id that is present differs from the pending one.\<close>

definition ids_differ :: "ConnectionStateHandler \<Rightarrow> bool" where
  "ids_differ h =
     (connectionState h \<noteq> Connected \<longrightarrow> clientId h \<noteq> None \<longrightarrow>
      clientId h \<noteq> pendingClientId h)"

section \<open>The catch-up adapter\<close>

text \<open>
  Modelled from the spec: the catch-up monitor (\<open>./catchUpMonitor\<close> is not among the
  sources). A monitor is constructed when the adapter enters \<open>CatchingUp\<close>;
  \<open>on("caughtUp", listener)\<close> registers a one-shot listener and does nothing else; the
  monitor signals once, when the client has caught up, and then calls the listeners it
  holds; \<open>dispose()\<close> cancels the signal. The only listener ever registered is
  \<open>transitionToConnectedState\<close>, so a monitor is the number of registrations it holds.
\<close>

record ICatchUpMonitor =
  caughtUpListeners :: nat

definition CatchUpMonitor_new :: ICatchUpMonitor where
  "CatchUpMonitor_new = \<lparr>caughtUpListeners = 0\<rparr>"

definition CatchUpMonitor_on_caughtUp :: "ICatchUpMonitor \<Rightarrow> ICatchUpMonitor" where
  "CatchUpMonitor_on_caughtUp mon = mon\<lparr>caughtUpListeners := Suc (caughtUpListeners mon)\<rparr>"

text \<open>
  The class \<open>ConnectionStateCatchup\<close>: the wrapped handler \<open>pimpl\<close>, the private
  \<open>_connectionState\<close> that its getter \<open>connectionState\<close> returns, and the monitor. The
  calls it makes to the outer \<open>inputs.connectionStateChanged\<close> are collected in
  \<open>forwarded\<close>, the monitors on which it called \<open>dispose()\<close> in \<open>disposedMonitors\<close>.
\<close>

record ConnectionStateCatchup =
  pimpl :: ConnectionStateHandler
  catchup_connectionState :: ConnectionState
  catchUpMonitor :: "ICatchUpMonitor option"
  disposedMonitors :: "ICatchUpMonitor list"
  forwarded :: "effect list"

type_synonym catchup_outcome = "ConnectionStateCatchup \<times> error option"

definition new_catchup :: "ConnectionStateHandler \<Rightarrow> ConnectionStateCatchup" where
  "new_catchup inner =
     \<lparr>pimpl = inner,
      catchup_connectionState = connectionState inner,
      catchUpMonitor = None,
      disposedMonitors = [],
      forwarded = []\<rparr>"

text \<open>The two statements after the \<open>switch\<close> of \<open>connectionStateChanged\<close>.\<close>

definition forward ::
    "ConnectionState \<Rightarrow> ConnectionState \<Rightarrow> string option \<Rightarrow> ConnectionStateCatchup \<Rightarrow>
     ConnectionStateCatchup" where
  "forward value oldState reason g =
     g\<lparr>catchup_connectionState := value,
       forwarded := forwarded g @ [ConnectionStateChanged value oldState reason]\<rparr>"

text \<open>\<open>this.catchUpMonitor?.dispose(); this.catchUpMonitor = undefined\<close>\<close>

definition dispose_monitor :: "ConnectionStateCatchup \<Rightarrow> ConnectionStateCatchup" where
  "dispose_monitor g =
     (case catchUpMonitor g of
        None \<Rightarrow> g\<lparr>catchUpMonitor := None\<rparr>
      | Some mon \<Rightarrow> g\<lparr>catchUpMonitor := None, disposedMonitors := disposedMonitors g @ [mon]\<rparr>)"

fun connectionStateChanged ::
    "ConnectionState \<Rightarrow> ConnectionState \<Rightarrow> string option \<Rightarrow> ConnectionStateCatchup \<Rightarrow>
     catchup_outcome" where
  "connectionStateChanged Connected oldState reason g =
     (if catchup_connectionState g \<noteq> CatchingUp then (g, Some Assert_connectivity_transitions)
      else case catchUpMonitor g of
             None \<Rightarrow> (g, Some Assert_catchUpMonitor_should_be_set)
           | Some mon \<Rightarrow> (g\<lparr>catchUpMonitor := Some (CatchUpMonitor_on_caughtUp mon)\<rparr>, None))"
| "connectionStateChanged Disconnected oldState reason g =
     (forward Disconnected oldState reason (dispose_monitor g), None)"
| "connectionStateChanged CatchingUp oldState reason g =
     (if catchup_connectionState g \<noteq> Disconnected then (g, Some Assert_connectivity_transitions)
      else if catchUpMonitor g \<noteq> None then (g, Some Assert_catchUpMonitor_should_be_gone)
      else (forward CatchingUp oldState reason (g\<lparr>catchUpMonitor := Some CatchUpMonitor_new\<rparr>),
            None))"
| "connectionStateChanged EstablishingConnection oldState reason g =
     (forward EstablishingConnection oldState reason g, None)"




text \<open>
  Scenario S7: the adapter in front of a new handler that receives a first read
  connection \<open>c1\<close>. The handler reports its two transitions, which the adapter takes in
  order; afterwards the handler is \<open>Connected\<close>.
\<close>

definition S7_inner :: ConnectionStateHandler where
  "S7_inner = fst (receivedConnectEvent Read \<lparr>details_clientId = ''c1''\<rparr> (new_handler False None))"

definition S7_catching_up :: ConnectionStateCatchup where
  "S7_catching_up =
     (fst (connectionStateChanged CatchingUp Disconnected None (new_catchup (new_handler False None))))
       \<lparr>pimpl := S7_inner\<rparr>"

definition S7_held_back :: ConnectionStateCatchup where
  "S7_held_back = fst (connectionStateChanged Connected CatchingUp None S7_catching_up)"

text \<open>
  Scenario S4 after the disconnect: the handler is \<open>Disconnected\<close> and waits for the
  leave of \<open>c_old\<close>. In the second state the quorum already holds the member \<open>c_new\<close>
  of the connection to come.
\<close>

definition S4_disconnected :: ConnectionStateHandler where
  "S4_disconnected = fst (run (S4_events @ [ReceivedDisconnect ''net'']) (new_handler True None))"

definition S4_disconnected_joined :: ConnectionStateHandler where
  "S4_disconnected_joined =
     fst (run (S4_events @ [AddMember ''c_new'' \<lparr>shouldHaveLeft = False\<rparr>,
                            ReceivedDisconnect ''net''])
            (new_handler True None))"

section \<open>How the helper operations act on the fields\<close>

lemma emit_fields [simp]:
  "connectionState (emit x h) = connectionState h"
  "pendingClientId (emit x h) = pendingClientId h"
  "clientId (emit x h) = clientId h"
  "prevClientLeftTimer (emit x h) = prevClientLeftTimer h"
  "joinOpTimer (emit x h) = joinOpTimer h"
  "waitEvent (emit x h) = waitEvent h"
  "quorumClients (emit x h) = quorumClients h"
  "shouldClientJoinWrite (emit x h) = shouldClientJoinWrite h"
  "emitted (emit x h) = emitted h @ [x]"
  by (simp_all add: emit_def)

lemma end_waitEvent_fields [simp]:
  "connectionState (end_waitEvent s h) = connectionState h"
  "pendingClientId (end_waitEvent s h) = pendingClientId h"
  "clientId (end_waitEvent s h) = clientId h"
  "prevClientLeftTimer (end_waitEvent s h) = prevClientLeftTimer h"
  "joinOpTimer (end_waitEvent s h) = joinOpTimer h"
  "waitEvent (end_waitEvent s h) = waitEvent h"
  "quorumClients (end_waitEvent s h) = quorumClients h"
  "shouldClientJoinWrite (end_waitEvent s h) = shouldClientJoinWrite h"
  by (simp_all add: end_waitEvent_def split: option.split)

lemma start_waitEvent_fields [simp]:
  "connectionState (start_waitEvent h) = connectionState h"
  "pendingClientId (start_waitEvent h) = pendingClientId h"
  "clientId (start_waitEvent h) = clientId h"
  "prevClientLeftTimer (start_waitEvent h) = prevClientLeftTimer h"
  "joinOpTimer (start_waitEvent h) = joinOpTimer h"
  "quorumClients (start_waitEvent h) = quorumClients h"
  "shouldClientJoinWrite (start_waitEvent h) = shouldClientJoinWrite h"
  by (simp_all add: start_waitEvent_def Let_def)

lemma mark_shouldHaveLeft_fields [simp]:
  "connectionState (mark_shouldHaveLeft h) = connectionState h"
  "pendingClientId (mark_shouldHaveLeft h) = pendingClientId h"
  "clientId (mark_shouldHaveLeft h) = clientId h"
  "prevClientLeftTimer (mark_shouldHaveLeft h) = prevClientLeftTimer h"
  "joinOpTimer (mark_shouldHaveLeft h) = joinOpTimer h"
  "waitEvent (mark_shouldHaveLeft h) = waitEvent h"
  "shouldClientJoinWrite (mark_shouldHaveLeft h) = shouldClientJoinWrite h"
  "emitted (mark_shouldHaveLeft h) = emitted h"
  by (simp_all add: mark_shouldHaveLeft_def split: option.split)

text \<open>Marking a member does not change who is a member.\<close>

lemma mark_shouldHaveLeft_member [simp]:
  "(getMember_opt (quorumClients (mark_shouldHaveLeft h)) c = None) =
   (getMember_opt (quorumClients h) c = None)"
  by (simp add: mark_shouldHaveLeft_def getMember_opt_def getMember_def split: option.split)

lemma mark_shouldHaveLeft_present [simp]:
  "(quorumClients (mark_shouldHaveLeft h) = None) = (quorumClients h = None)"
  by (simp add: mark_shouldHaveLeft_def split: option.split)

lemma lookup_client_upd [simp]:
  "lookup_client (h\<lparr>connectionState := v\<rparr>) = lookup_client h"
  by (simp add: lookup_client_def split: option.split)

lemma lookup_client_in_quorum: "(lookup_client h \<noteq> None) = clientId_in_quorum h"
  by (simp add: lookup_client_def clientId_in_quorum_def split: option.split)

lemma clientId_in_quorum_helpers [simp]:
  "clientId_in_quorum (emit x h) = clientId_in_quorum h"
  "clientId_in_quorum (end_waitEvent s h) = clientId_in_quorum h"
  "clientId_in_quorum (start_waitEvent h) = clientId_in_quorum h"
  by (simp_all add: clientId_in_quorum_def split: option.split)

lemma clientId_in_quorum_updates [simp]:
  "clientId_in_quorum (h\<lparr>connectionState := s\<rparr>) = clientId_in_quorum h"
  "clientId_in_quorum (h\<lparr>pendingClientId := p\<rparr>) = clientId_in_quorum h"
  "clientId_in_quorum (h\<lparr>prevClientLeftTimer := t\<rparr>) = clientId_in_quorum h"
  "clientId_in_quorum (h\<lparr>joinOpTimer := t\<rparr>) = clientId_in_quorum h"
  "clientId_in_quorum (h\<lparr>waitEvent := w\<rparr>) = clientId_in_quorum h"
  "clientId_in_quorum (h\<lparr>shouldClientJoinWrite := b\<rparr>) = clientId_in_quorum h"
  by (simp_all add: clientId_in_quorum_def split: option.split)

lemma clientId_in_quorum_iff:
  "clientId_in_quorum h =
   (\<exists>c q m. clientId h = Some c \<and> quorumClients h = Some q \<and> q c = Some m)"
  by (auto simp add: clientId_in_quorum_def getMember_opt_def getMember_def split: option.split)

lemma transitions_of_append [simp]:
  "transitions_of (xs @ ys) = transitions_of xs @ transitions_of ys"
  by (induction xs rule: transitions_of.induct) simp_all

lemma trace_emit [simp]: "trace (emit x h) = trace h @ transitions_of [x]"
  by (simp add: trace_def)

lemma trace_end_waitEvent [simp]: "trace (end_waitEvent s h) = trace h"
  by (cases "waitEvent h") (simp_all add: end_waitEvent_def)

lemma trace_start_waitEvent [simp]: "trace (start_waitEvent h) = trace h"
proof -
  have "trace (h\<lparr>waitEvent := w\<rparr>) = trace h" for w by (simp add: trace_def)
  then show ?thesis by (simp add: start_waitEvent_def Let_def)
qed

lemma trace_mark [simp]: "trace (mark_shouldHaveLeft h) = trace h"
  by (simp add: trace_def)

lemma trace_updates [simp]:
  "trace (h\<lparr>connectionState := s\<rparr>) = trace h"
  "trace (h\<lparr>pendingClientId := p\<rparr>) = trace h"
  "trace (h\<lparr>clientId := c\<rparr>) = trace h"
  "trace (h\<lparr>prevClientLeftTimer := t\<rparr>) = trace h"
  "trace (h\<lparr>joinOpTimer := t\<rparr>) = trace h"
  "trace (h\<lparr>quorumClients := qo\<rparr>) = trace h"
  "trace (h\<lparr>shouldClientJoinWrite := b\<rparr>) = trace h"
  by (simp_all add: trace_def)

section \<open>The operations as equations\<close>

lemma setConnectionState_same:
  "connectionState h = value \<Longrightarrow>
   setConnectionState value reason h = (emit (SendErrorEvent ''setConnectionStateSame'' value) h, None)"
  by (simp add: setConnectionState_def)

lemma setConnectionState_Connected:
  "connectionState h = CatchingUp \<Longrightarrow>
   setConnectionState Connected reason h =
     (emit (ConnectionStateChanged Connected CatchingUp reason)
        ((mark_shouldHaveLeft (h\<lparr>connectionState := Connected\<rparr>))\<lparr>clientId := pendingClientId h\<rparr>),
      None)"
  by (simp add: setConnectionState_def connected_branch_def and_then_def Let_def)

lemma disconnected_branch_eq:
  "disconnected_branch client h =
     (let h2 = h\<lparr>pendingClientId := None,
                 joinOpTimer := (if hasTimer (joinOpTimer h) then Timer_clear (joinOpTimer h)
                                 else joinOpTimer h)\<rparr>
      in (if client \<noteq> None \<and> shouldClientJoinWrite h \<and> \<not> hasTimer (prevClientLeftTimer h)
          then h2\<lparr>prevClientLeftTimer := Timer_restart (prevClientLeftTimer h)\<rparr>
          else emit (SendTelemetryEvent ''noWaitOnDisconnected'' None
                       (NoWaitOnDisconnectedDetails (client \<noteq> None)
                          (hasTimer (prevClientLeftTimer h)) (shouldClientJoinWrite h))) h2,
          None))"
proof (cases "hasTimer (joinOpTimer h)")
  case True
  then show ?thesis
    by (auto simp add: disconnected_branch_def and_then_def Let_def stopJoinOpTimer_def
        waitingForLeaveOp_def)
next
  case False
  then show ?thesis
    by (auto simp add: disconnected_branch_def and_then_def Let_def waitingForLeaveOp_def)
qed

lemma setConnectionState_Disconnected:
  "connectionState h \<noteq> Disconnected \<Longrightarrow>
   setConnectionState Disconnected reason h =
     (let h2 = h\<lparr>connectionState := Disconnected, pendingClientId := None,
                 joinOpTimer := (if hasTimer (joinOpTimer h) then Timer_clear (joinOpTimer h)
                                 else joinOpTimer h)\<rparr>
      in (emit (ConnectionStateChanged Disconnected (connectionState h) reason)
           (if leave_wait_armed_on_disconnect h
            then h2\<lparr>prevClientLeftTimer := Timer_restart (prevClientLeftTimer h)\<rparr>
            else emit (SendTelemetryEvent ''noWaitOnDisconnected'' None
                        (NoWaitOnDisconnectedDetails (lookup_client h \<noteq> None)
                           (hasTimer (prevClientLeftTimer h)) (shouldClientJoinWrite h))) h2),
          None))"
  by (auto simp add: setConnectionState_def disconnected_branch_eq and_then_def Let_def
      leave_wait_armed_on_disconnect_def)

section \<open>The invariant\<close>

lemma inv_emit [simp]: "core_inv (emit x h) = core_inv h"
  by (simp add: core_inv_def)

lemma inv_end_waitEvent [simp]: "core_inv (end_waitEvent s h) = core_inv h"
  by (simp add: core_inv_def)

lemma inv_start_waitEvent [simp]: "core_inv (start_waitEvent h) = core_inv h"
  by (simp add: core_inv_def)

lemma inv_new: "core_inv (new_handler joinWrite initialClientId)"
  by (simp add: core_inv_def new_handler_def Timer_new_def)

lemma may_promote_CatchingUp:
  "core_inv h \<Longrightarrow> may_promote q h \<Longrightarrow> connectionState h = CatchingUp"
  by (cases "connectionState h") (auto simp add: core_inv_def may_promote_def)

lemma applyForConnectedState_promote:
  assumes "core_inv h" "quorumClients h = Some q" "may_promote q h"
  shows "applyForConnectedState s h =
     (emit (ConnectionStateChanged Connected CatchingUp None)
        ((mark_shouldHaveLeft ((end_waitEvent s h)\<lparr>connectionState := Connected\<rparr>))
           \<lparr>clientId := pendingClientId h\<rparr>), None)"
proof -
  have c: "connectionState h = CatchingUp" using assms by (simp add: may_promote_CatchingUp)
  have w: "\<not> waitingForLeaveOp h" using assms(3) by (simp add: may_promote_def)
  show ?thesis using assms(2,3) c w
    by (simp add: applyForConnectedState_def setConnectionState_Connected)
qed

lemma applyForConnectedState_reject:
  assumes "core_inv h" "quorumClients h = Some q" "\<not> may_promote q h"
  shows "applyForConnectedState s h = (emit (rejected_event s q h) h, None)"
proof -
  have "waitingForLeaveOp h \<Longrightarrow> (case clientId h of None \<Rightarrow> False | Some c \<Rightarrow> getMember q c \<noteq> None)"
    using assms(1,2)
    by (auto simp add: core_inv_def clientId_in_quorum_iff waitingForLeaveOp_def getMember_def)
  then show ?thesis using assms(2,3)
    by (auto simp add: applyForConnectedState_def)
qed

lemma applyForConnectedState_no_quorum:
  "quorumClients h = None \<Longrightarrow> applyForConnectedState s h = (h, Some Assert_0x236)"
  by (simp add: applyForConnectedState_def)


lemma inv_updates [simp]:
  "core_inv (h\<lparr>shouldClientJoinWrite := b\<rparr>) = core_inv h"
  "core_inv (h\<lparr>waitEvent := w\<rparr>) = core_inv h"
  by (simp_all add: core_inv_def)

lemma inv_timer_off:
  "core_inv h \<Longrightarrow> \<not> hasTimer t \<Longrightarrow> core_inv (h\<lparr>prevClientLeftTimer := t\<rparr>)"
  "core_inv h \<Longrightarrow> \<not> hasTimer t \<Longrightarrow> core_inv (h\<lparr>joinOpTimer := t\<rparr>)"
  by (simp_all add: core_inv_def)

lemma inv_applyForConnectedState:
  assumes "core_inv h"
  shows "core_inv (fst (applyForConnectedState s h))"
proof (cases "quorumClients h")
  case None
  then show ?thesis using assms by (simp add: applyForConnectedState_no_quorum)
next
  case (Some q)
  show ?thesis
  proof (cases "may_promote q h")
    case True
    then have "pendingClientId h \<noteq> None" "\<not> hasTimer (prevClientLeftTimer h)"
      by (auto simp add: may_promote_def waitingForLeaveOp_def split: option.splits)
    then show ?thesis
      using applyForConnectedState_promote [OF assms Some True]
      by (simp add: core_inv_def)
  next
    case False
    then show ?thesis
      using applyForConnectedState_reject [OF assms Some False] assms by simp
  qed
qed

lemma dfa_applyForConnectedState:
  assumes "core_inv h"
  shows "dfa_step (connectionState h) (trace h) (applyForConnectedState s h)"
proof (cases "quorumClients h")
  case None
  then show ?thesis
    by (simp add: applyForConnectedState_no_quorum dfa_step_def quiet_step_def)
next
  case (Some q)
  show ?thesis
  proof (cases "may_promote q h")
    case True
    have "connectionState h = CatchingUp" using assms True by (rule may_promote_CatchingUp)
    then show ?thesis
      using applyForConnectedState_promote [OF assms Some True]
      by (simp add: dfa_step_def moved_step_def)
  next
    case False
    then show ?thesis
      using applyForConnectedState_reject [OF assms Some False]
      by (simp add: dfa_step_def quiet_step_def rejected_event_def)
  qed
qed

lemma dfa_step_from:
  "dfa_step (connectionState h1) (trace h1) out \<Longrightarrow> connectionState h1 = s \<Longrightarrow> trace h1 = t \<Longrightarrow>
   dfa_step s t out"
  by simp

lemma inv_setConnectionState_Disconnected:
  assumes "core_inv h"
  shows "core_inv (fst (setConnectionState Disconnected reason h))"
proof (cases "connectionState h = Disconnected")
  case True
  then show ?thesis using assms by (simp add: setConnectionState_same)
next
  case False
  have "hasTimer (prevClientLeftTimer h) \<or> leave_wait_armed_on_disconnect h \<Longrightarrow> clientId_in_quorum h"
    using assms lookup_client_in_quorum [of h]
    by (auto simp add: core_inv_def leave_wait_armed_on_disconnect_def)
  then show ?thesis using assms False
    by (simp add: setConnectionState_Disconnected Let_def core_inv_def Timer_clear_def
        Timer_restart_def)
qed

lemma dfa_setConnectionState_Disconnected:
  assumes "core_inv h"
  shows "dfa_step (connectionState h) (trace h) (setConnectionState Disconnected reason h)"
proof (cases "connectionState h = Disconnected")
  case True
  then show ?thesis by (simp add: setConnectionState_same dfa_step_def quiet_step_def)
next
  case False
  then have "legal_transition (connectionState h) Disconnected"
    using assms by (cases "connectionState h") (simp_all add: core_inv_def)
  then show ?thesis using False
    by (simp add: setConnectionState_Disconnected Let_def dfa_step_def moved_step_def)
qed


lemma receivedConnectEvent_asserts_fail:
  "\<not> ((shouldClientJoinWrite h \<longrightarrow> m = Write) \<and> (hasTimer (prevClientLeftTimer h) \<longrightarrow> m = Write)) \<Longrightarrow>
   fst (receivedConnectEvent m d h) = h\<lparr>connectionState := CatchingUp\<rparr>
   \<and> snd (receivedConnectEvent m d h) \<noteq> None"
  by (auto simp add: receivedConnectEvent_def Let_def waitingForLeaveOp_def)

lemma receivedConnectEvent_fails_0x30a:
  "shouldClientJoinWrite h \<Longrightarrow> m \<noteq> Write \<Longrightarrow>
   receivedConnectEvent m d h = (h\<lparr>connectionState := CatchingUp\<rparr>, Some Assert_0x30a)"
  by (simp add: receivedConnectEvent_def Let_def)

lemma receivedConnectEvent_fails_0x2a6:
  "\<not> shouldClientJoinWrite h \<Longrightarrow> hasTimer (prevClientLeftTimer h) \<Longrightarrow> m \<noteq> Write \<Longrightarrow>
   receivedConnectEvent m d h = (h\<lparr>connectionState := CatchingUp\<rparr>, Some Assert_0x2a6)"
  by (simp add: receivedConnectEvent_def Let_def waitingForLeaveOp_def)

lemma receivedConnectEvent_eq:
  assumes "shouldClientJoinWrite h \<longrightarrow> m = Write" "hasTimer (prevClientLeftTimer h) \<longrightarrow> m = Write"
  shows "receivedConnectEvent m d h =
     (let h3 = emit (ConnectionStateChanged CatchingUp (connectionState h) None)
                 (h\<lparr>connectionState := CatchingUp, pendingClientId := Some (details_clientId d)\<rparr>)
      in if m = Write \<and> getMember_opt (quorumClients h) (details_clientId d) = None
         then startJoinOpTimer h3
         else if \<not> hasTimer (prevClientLeftTimer h) then setConnectionState Connected None h3
         else (h3, None))"
  using assms by (auto simp add: receivedConnectEvent_def Let_def waitingForLeaveOp_def)

lemma inv_startJoinOpTimer:
  "core_inv h \<Longrightarrow> connectionState h = CatchingUp \<Longrightarrow> core_inv (fst (startJoinOpTimer h))"
  by (simp add: startJoinOpTimer_def core_inv_def)

lemma inv_receivedConnectEvent:
  assumes "core_inv h"
  shows "core_inv (fst (receivedConnectEvent m d h))"
proof (cases "(shouldClientJoinWrite h \<longrightarrow> m = Write) \<and> (hasTimer (prevClientLeftTimer h) \<longrightarrow> m = Write)")
  case False
  then show ?thesis
    using receivedConnectEvent_asserts_fail [OF False, of d] assms by (simp add: core_inv_def)
next
  case True
  define h3 where "h3 = emit (ConnectionStateChanged CatchingUp (connectionState h) None)
                 (h\<lparr>connectionState := CatchingUp, pendingClientId := Some (details_clientId d)\<rparr>)"
  have i3: "core_inv h3" using assms by (simp add: h3_def core_inv_def)
  have c3: "connectionState h3 = CatchingUp" by (simp add: h3_def)
  have "core_inv (fst (setConnectionState Connected None h3))"
    if "\<not> hasTimer (prevClientLeftTimer h)"
    using that by (simp add: setConnectionState_Connected c3) (simp add: h3_def core_inv_def)
  then show ?thesis
    using True inv_startJoinOpTimer [OF i3 c3] i3
    by (simp add: receivedConnectEvent_eq Let_def flip: h3_def)
qed

lemma quorum_add_fields [simp]:
  "connectionState (quorum_add c m h) = connectionState h"
  "pendingClientId (quorum_add c m h) = pendingClientId h"
  "clientId (quorum_add c m h) = clientId h"
  "prevClientLeftTimer (quorum_add c m h) = prevClientLeftTimer h"
  "joinOpTimer (quorum_add c m h) = joinOpTimer h"
  "waitEvent (quorum_add c m h) = waitEvent h"
  "shouldClientJoinWrite (quorum_add c m h) = shouldClientJoinWrite h"
  "emitted (quorum_add c m h) = emitted h"
  by (simp_all add: quorum_add_def split: option.split)

lemma quorum_remove_fields [simp]:
  "connectionState (quorum_remove c h) = connectionState h"
  "pendingClientId (quorum_remove c h) = pendingClientId h"
  "clientId (quorum_remove c h) = clientId h"
  "prevClientLeftTimer (quorum_remove c h) = prevClientLeftTimer h"
  "joinOpTimer (quorum_remove c h) = joinOpTimer h"
  "waitEvent (quorum_remove c h) = waitEvent h"
  "shouldClientJoinWrite (quorum_remove c h) = shouldClientJoinWrite h"
  "emitted (quorum_remove c h) = emitted h"
  by (simp_all add: quorum_remove_def split: option.split)

lemma trace_quorum [simp]:
  "trace (quorum_add c m h) = trace h" "trace (quorum_remove c h) = trace h"
  by (simp_all add: trace_def)

lemma inv_quorum_add: "core_inv h \<Longrightarrow> core_inv (quorum_add c m h)"
  by (auto simp add: core_inv_def clientId_in_quorum_iff quorum_add_def split: option.splits)

lemma inv_quorum_remove:
  "core_inv h \<Longrightarrow> clientId h \<noteq> Some c \<Longrightarrow> core_inv (quorum_remove c h)"
  by (auto simp add: core_inv_def clientId_in_quorum_iff quorum_remove_def split: option.splits)

lemma inv_quorum_remove_cleared:
  "core_inv h \<Longrightarrow> \<not> hasTimer t \<Longrightarrow> core_inv ((quorum_remove c h)\<lparr>prevClientLeftTimer := t\<rparr>)"
  by (simp add: core_inv_def)

text \<open>The state in which \<open>receivedAddMemberEvent\<close> calls \<open>applyForConnectedState\<close>.\<close>

lemma receivedAddMemberEvent_eq:
  "receivedAddMemberEvent c h =
     (if Some c = pendingClientId h
      then applyForConnectedState AddMemberEvent
             ((if hasTimer (prevClientLeftTimer h) then start_waitEvent else (\<lambda>x. x))
                (if hasTimer (joinOpTimer h) then h\<lparr>joinOpTimer := Timer_clear (joinOpTimer h)\<rparr>
                 else emit (LogConnectionIssue ''ReceivedJoinOp'' None) h))
      else (h, None))"
  by (simp add: receivedAddMemberEvent_def stopJoinOpTimer_def and_then_def waitingForLeaveOp_def)

lemma step_inv:
  assumes "core_inv h" "enabled e h"
  shows "core_inv (fst (step e h))"
proof (cases e)
  case (InitProtocol q)
  have "\<not> hasTimer (prevClientLeftTimer h)"
    using assms InitProtocol by (auto simp add: core_inv_def clientId_in_quorum_iff)
  then show ?thesis using assms(1) InitProtocol
    by (auto simp add: initProtocol_def core_inv_def clientId_in_quorum_iff getMember_def
        Timer_restart_def split: option.splits)
next
  case (ReceivedConnect m d)
  then show ?thesis using assms(1) by (simp add: inv_receivedConnectEvent)
next
  case (ReceivedDisconnect reason)
  then show ?thesis using assms(1)
    by (simp add: receivedDisconnectEvent_def inv_setConnectionState_Disconnected)
next
  case (AddMember c m)
  define h1 where "h1 = quorum_add c m h"
  define h2 where "h2 = (if hasTimer (prevClientLeftTimer h1) then start_waitEvent else (\<lambda>x. x))
                (if hasTimer (joinOpTimer h1) then h1\<lparr>joinOpTimer := Timer_clear (joinOpTimer h1)\<rparr>
                 else emit (LogConnectionIssue ''ReceivedJoinOp'' None) h1)"
  have i1: "core_inv h1" unfolding h1_def using assms(1) by (rule inv_quorum_add)
  have "core_inv h2" unfolding h2_def using i1 by (simp add: inv_timer_off Timer_clear_def)
  then have "core_inv (fst (applyForConnectedState AddMemberEvent h2))"
    by (rule inv_applyForConnectedState)
  moreover have "step e h = (if Some c = pendingClientId h1
      then applyForConnectedState AddMemberEvent h2 else (h1, None))"
    unfolding AddMember h2_def h1_def by (simp only: step.simps receivedAddMemberEvent_eq)
  ultimately show ?thesis using i1 by simp
next
  case (RemoveMember c)
  then show ?thesis using assms(1)
    by (simp add: receivedRemoveMemberEvent_def inv_applyForConnectedState
        inv_quorum_remove inv_quorum_remove_cleared Timer_clear_def)
next
  case JoinOpTimerFires
  have "core_inv (h\<lparr>joinOpTimer := Timer_expire (joinOpTimer h)\<rparr>)"
    using assms(1) by (simp add: inv_timer_off Timer_expire_def)
  then show ?thesis using JoinOpTimerFires by (simp add: joinOpTimer_callback_def)
next
  case JoinOpTimerLateCallback
  then show ?thesis using assms(1) by (simp add: joinOpTimer_callback_def)
next
  case PrevClientLeftTimerFires
  have "core_inv (h\<lparr>prevClientLeftTimer := Timer_expire (prevClientLeftTimer h)\<rparr>)"
    using assms(1) by (simp add: inv_timer_off Timer_expire_def)
  then show ?thesis using PrevClientLeftTimerFires
    by (simp add: prevClientLeftTimer_callback_def inv_applyForConnectedState)
next
  case PrevClientLeftTimerLateCallback
  then show ?thesis using assms(1)
    by (simp add: prevClientLeftTimer_callback_def inv_applyForConnectedState)
next
  case ContainerIsSaved
  have "core_inv (h\<lparr>prevClientLeftTimer := Timer_clear (prevClientLeftTimer h)\<rparr>)"
    using assms(1) by (simp add: inv_timer_off Timer_clear_def)
  then show ?thesis using ContainerIsSaved assms(1)
    by (simp add: containerSaved_def inv_applyForConnectedState)
next
  case Disposed
  have "core_inv (h\<lparr>prevClientLeftTimer := Timer_clear (prevClientLeftTimer h)\<rparr>)"
    using assms(1) by (simp add: inv_timer_off Timer_clear_def)
  then show ?thesis using Disposed assms(1) by (simp add: dispose_def)
next
  case (OwnerJoinWrite b)
  then show ?thesis using assms(1) by simp
qed

lemma run_inv: "core_inv h \<Longrightarrow> core_inv (fst (run es h))"
proof (induction es arbitrary: h)
  case Nil
  then show ?case by simp
next
  case (Cons e es)
  show ?case
  proof (cases "enabled e h")
    case False
    then show ?thesis using Cons by simp
  next
    case True
    have i: "core_inv (fst (step e h))" using Cons.prems True by (rule step_inv)
    obtain h1 r where s: "step e h = (h1, r)" by (cases "step e h")
    show ?thesis
    proof (cases r)
      case None
      then have "run (e # es) h = run es h1"
        using True s by (simp add: and_then_def)
      then show ?thesis using Cons.IH [of h1] i s by simp
    next
      case (Some x)
      then have "run (e # es) h = step e h"
        using True s by (simp add: and_then_def)
      then show ?thesis using i by simp
    qed
  qed
qed


section \<open>Runs\<close>

lemma run_Cons_enabled:
  "enabled e h \<Longrightarrow> step e h = (h1, None) \<Longrightarrow> run (e # es) h = run es h1"
  "enabled e h \<Longrightarrow> step e h = (h1, Some x) \<Longrightarrow> run (e # es) h = (h1, Some x)"
  "\<not> enabled e h \<Longrightarrow> run (e # es) h = run es h"
  by (simp_all add: and_then_def)

lemma legal_into_Connected: "legal_transition s Connected \<Longrightarrow> s = CatchingUp"
  by (cases s) simp_all


section \<open>Evaluating the scenarios\<close>

lemmas handler_defs =
  new_handler_def Timer_new_def Timer_start_def Timer_restart_def Timer_clear_def Timer_expire_def
  emit_def waitingForLeaveOp_def getMember_opt_def getMember_def pendingClientId_or_empty_def
  startJoinOpTimer_def stopJoinOpTimer_def and_then_def lookup_client_def mark_shouldHaveLeft_def
  disconnected_branch_def connected_branch_def setConnectionState_def category_of_def
  may_promote_def end_waitEvent_def rejected_event_def applyForConnectedState_def
  prevClientLeftTimer_callback_def joinOpTimer_callback_def dispose_def containerSaved_def
  start_waitEvent_def receivedAddMemberEvent_def receivedRemoveMemberEvent_def
  receivedDisconnectEvent_def receivedConnectEvent_def initProtocol_def
  quorum_add_def quorum_remove_def Let_def

lemma S4_connected_eq:
  "S4_connected =
     \<lparr>connectionState = Connected,
      pendingClientId = Some ''c_old'',
      clientId = Some ''c_old'',
      prevClientLeftTimer = \<lparr>hasTimer = False, armings = 0\<rparr>,
      joinOpTimer = \<lparr>hasTimer = False, armings = 1\<rparr>,
      waitEvent = None,
      quorumClients = Some [''c_old'' \<mapsto> \<lparr>shouldHaveLeft = False\<rparr>],
      shouldClientJoinWrite = True,
      emitted = [ConnectionStateChanged CatchingUp Disconnected None,
                 ConnectionStateChanged Connected CatchingUp None]\<rparr>"
  and S4_connected_ok: "snd (run S4_events (new_handler True None)) = None"
  by (simp_all add: S4_connected_def S4_events_def handler_defs)

text \<open>
  Scenario S4 in full: after the disconnect the new connection \<open>c_new\<close> joins, which
  does not promote the handler while it waits for the leave of \<open>c_old\<close>; the leave does.
\<close>

lemma scenario_S4:
  "trace (fst (run (S4_events @
      [ReceivedDisconnect ''net'',
       ReceivedConnect Write \<lparr>details_clientId = ''c_new''\<rparr>,
       AddMember ''c_new'' \<lparr>shouldHaveLeft = False\<rparr>]) (new_handler True None))) =
     [(Disconnected, CatchingUp), (CatchingUp, Connected), (Connected, Disconnected),
      (Disconnected, CatchingUp)]"
  "trace (fst (run (S4_events @
      [ReceivedDisconnect ''net'',
       ReceivedConnect Write \<lparr>details_clientId = ''c_new''\<rparr>,
       AddMember ''c_new'' \<lparr>shouldHaveLeft = False\<rparr>,
       RemoveMember ''c_old'']) (new_handler True None))) =
     [(Disconnected, CatchingUp), (CatchingUp, Connected), (Connected, Disconnected),
      (Disconnected, CatchingUp), (CatchingUp, Connected)]"
  "clientId (fst (run (S4_events @
      [ReceivedDisconnect ''net'',
       ReceivedConnect Write \<lparr>details_clientId = ''c_new''\<rparr>,
       AddMember ''c_new'' \<lparr>shouldHaveLeft = False\<rparr>,
       RemoveMember ''c_old'']) (new_handler True None))) = Some ''c_new''"
  by (simp_all add: S4_events_def trace_def handler_defs)

text \<open>Scenarios S5 and S6: the leave timer firing, or the container being saved, promotes instead.\<close>

lemma scenario_S5_S6:
  "connectionState (fst (run (S4_events @
      [ReceivedDisconnect ''net'',
       ReceivedConnect Write \<lparr>details_clientId = ''c_new''\<rparr>,
       AddMember ''c_new'' \<lparr>shouldHaveLeft = False\<rparr>,
       PrevClientLeftTimerFires]) (new_handler True None))) = Connected"
  "connectionState (fst (run (S4_events @
      [ReceivedDisconnect ''net'',
       ReceivedConnect Write \<lparr>details_clientId = ''c_new''\<rparr>,
       AddMember ''c_new'' \<lparr>shouldHaveLeft = False\<rparr>,
       ContainerIsSaved]) (new_handler True None))) = Connected"
  by (simp_all add: S4_events_def handler_defs)


section \<open>One step on the transition graph\<close>

lemma dfa_quiet: "trace h' = t \<Longrightarrow> (r = None \<longrightarrow> connectionState h' = s) \<Longrightarrow> dfa_step s t (h', r)"
  by (simp add: dfa_step_def quiet_step_def)

lemma step_dfa:
  assumes "core_inv h" "\<not> is_connect e"
  shows "dfa_step (connectionState h) (trace h) (step e h)"
proof (cases e)
  case (InitProtocol q)
  then show ?thesis by (simp add: initProtocol_def dfa_quiet)
next
  case (ReceivedConnect m d)
  then show ?thesis using assms(2) by simp
next
  case (ReceivedDisconnect reason)
  then show ?thesis using assms(1)
    by (simp add: receivedDisconnectEvent_def dfa_setConnectionState_Disconnected)
next
  case (AddMember c m)
  define h1 where "h1 = quorum_add c m h"
  define h2 where "h2 = (if hasTimer (prevClientLeftTimer h1) then start_waitEvent else (\<lambda>x. x))
                (if hasTimer (joinOpTimer h1) then h1\<lparr>joinOpTimer := Timer_clear (joinOpTimer h1)\<rparr>
                 else emit (LogConnectionIssue ''ReceivedJoinOp'' None) h1)"
  have i1: "core_inv h1" unfolding h1_def using assms(1) by (rule inv_quorum_add)
  have i2: "core_inv h2" unfolding h2_def using i1 by (simp add: inv_timer_off Timer_clear_def)
  have c2: "connectionState h2 = connectionState h" by (simp add: h2_def h1_def)
  have t2: "trace h2 = trace h" by (simp add: h2_def h1_def)
  have "dfa_step (connectionState h) (trace h) (applyForConnectedState AddMemberEvent h2)"
    using dfa_applyForConnectedState [OF i2, of AddMemberEvent] by (simp add: c2 t2)
  moreover have "dfa_step (connectionState h) (trace h) (h1, None)"
    by (simp add: dfa_quiet h1_def)
  moreover have "step e h = (if Some c = pendingClientId h1
      then applyForConnectedState AddMemberEvent h2 else (h1, None))"
    unfolding AddMember h2_def h1_def by (simp only: step.simps receivedAddMemberEvent_eq)
  ultimately show ?thesis by simp
next
  case (RemoveMember c)
  define h1 where "h1 = (quorum_remove c h)\<lparr>prevClientLeftTimer := Timer_clear (prevClientLeftTimer h)\<rparr>"
  have i1: "core_inv h1" unfolding h1_def using assms(1)
    by (simp add: inv_quorum_remove_cleared Timer_clear_def)
  have "dfa_step (connectionState h) (trace h) (applyForConnectedState RemoveMemberEvent h1)"
    using dfa_applyForConnectedState [OF i1, of RemoveMemberEvent] by (simp add: h1_def)
  then show ?thesis using RemoveMember
    by (simp add: receivedRemoveMemberEvent_def dfa_quiet h1_def)
next
  case JoinOpTimerFires
  then show ?thesis by (simp add: joinOpTimer_callback_def dfa_quiet)
next
  case JoinOpTimerLateCallback
  then show ?thesis by (simp add: joinOpTimer_callback_def dfa_quiet)
next
  case PrevClientLeftTimerFires
  define h1 where "h1 = h\<lparr>prevClientLeftTimer := Timer_expire (prevClientLeftTimer h)\<rparr>"
  have i1: "core_inv h1" unfolding h1_def using assms(1)
    by (simp add: inv_timer_off Timer_expire_def)
  have "dfa_step (connectionState h) (trace h) (applyForConnectedState Timeout h1)"
    using dfa_applyForConnectedState [OF i1, of Timeout] by (simp add: h1_def)
  then show ?thesis using PrevClientLeftTimerFires
    by (simp add: prevClientLeftTimer_callback_def h1_def dfa_quiet)
next
  case PrevClientLeftTimerLateCallback
  then show ?thesis using dfa_applyForConnectedState [OF assms(1), of Timeout]
    by (simp add: prevClientLeftTimer_callback_def dfa_quiet)
next
  case ContainerIsSaved
  define h1 where "h1 = h\<lparr>prevClientLeftTimer := Timer_clear (prevClientLeftTimer h)\<rparr>"
  have i1: "core_inv h1" unfolding h1_def using assms(1)
    by (simp add: inv_timer_off Timer_clear_def)
  have "dfa_step (connectionState h) (trace h) (applyForConnectedState ContainerSaved h1)"
    using dfa_applyForConnectedState [OF i1, of ContainerSaved] by (simp add: h1_def)
  then show ?thesis using ContainerIsSaved
    by (simp add: containerSaved_def dfa_quiet h1_def)
next
  case Disposed
  then show ?thesis by (simp add: dispose_def dfa_quiet)
next
  case (OwnerJoinWrite b)
  then show ?thesis by (simp add: dfa_quiet)
qed


lemma run_dfa:
  assumes "core_inv h" "\<forall>e \<in> set es. \<not> is_connect e"
  shows "\<exists>ts. trace (fst (run es h)) = trace h @ ts
            \<and> dfa_walk (connectionState h) ts
            \<and> promotions_from_CatchingUp_only ts
            \<and> (snd (run es h) = None \<longrightarrow>
                 walk_end (connectionState h) ts = connectionState (fst (run es h)))"
  using assms
proof (induction es arbitrary: h)
  case Nil
  have "trace (fst (run [] h)) = trace h @ []
        \<and> dfa_walk (connectionState h) []
        \<and> promotions_from_CatchingUp_only []
        \<and> (snd (run [] h) = None \<longrightarrow>
             walk_end (connectionState h) [] = connectionState (fst (run [] h)))"
    by simp
  then show ?case by (rule exI)
next
  case (Cons e es)
  define out where "out = run (e # es) h"
  have rest: "\<forall>e \<in> set es. \<not> is_connect e" using Cons.prems(2) by simp
  have "\<exists>ts. trace (fst out) = trace h @ ts
            \<and> dfa_walk (connectionState h) ts
            \<and> promotions_from_CatchingUp_only ts
            \<and> (snd out = None \<longrightarrow> walk_end (connectionState h) ts = connectionState (fst out))"
  proof (cases "enabled e h")
    case False
    have "out = run es h" unfolding out_def using False by (rule run_Cons_enabled(3))
    then show ?thesis using Cons.IH [OF Cons.prems(1) rest] by simp
  next
    case True
    obtain h1 r1 where s: "step e h = (h1, r1)" by (cases "step e h")
    have i1: "core_inv h1" using step_inv [OF Cons.prems(1) True] s by simp
    have ne: "\<not> is_connect e" using Cons.prems(2) by simp
    have d: "dfa_step (connectionState h) (trace h) (h1, r1)"
      using step_dfa [OF Cons.prems(1) ne] s by simp
    show ?thesis
    proof (cases r1)
      case (Some x)
      have o: "out = (h1, Some x)"
        unfolding out_def using True s [unfolded Some] by (rule run_Cons_enabled(2))
      have "trace h1 = trace h"
        using d Some by (simp add: dfa_step_def quiet_step_def moved_step_def)
      then have "trace (fst out) = trace h @ []
            \<and> dfa_walk (connectionState h) []
            \<and> promotions_from_CatchingUp_only []
            \<and> (snd out = None \<longrightarrow> walk_end (connectionState h) [] = connectionState (fst out))"
        by (simp add: o)
      then show ?thesis by (rule exI)
    next
      case None
      have o: "out = run es h1"
        unfolding out_def using True s [unfolded None] by (rule run_Cons_enabled(1))
      from Cons.IH [OF i1 rest]
      obtain ts where tsc: "trace (fst (run es h1)) = trace h1 @ ts
            \<and> dfa_walk (connectionState h1) ts
            \<and> promotions_from_CatchingUp_only ts
            \<and> (snd (run es h1) = None \<longrightarrow>
                 walk_end (connectionState h1) ts = connectionState (fst (run es h1)))" ..
      then have ts: "trace (fst (run es h1)) = trace h1 @ ts"
          "dfa_walk (connectionState h1) ts" "promotions_from_CatchingUp_only ts"
          "snd (run es h1) = None \<longrightarrow> walk_end (connectionState h1) ts = connectionState (fst (run es h1))"
        by simp_all
      from d show ?thesis unfolding dfa_step_def
      proof
        assume "quiet_step (connectionState h) (trace h) (h1, r1)"
        then have "trace h1 = trace h" "connectionState h1 = connectionState h"
          using None by (simp_all add: quiet_step_def)
        then have "trace (fst out) = trace h @ ts
            \<and> dfa_walk (connectionState h) ts
            \<and> promotions_from_CatchingUp_only ts
            \<and> (snd out = None \<longrightarrow> walk_end (connectionState h) ts = connectionState (fst out))"
          using ts by (simp add: o)
        then show ?thesis by (rule exI)
      next
        assume m: "moved_step (connectionState h) (trace h) (h1, r1)"
        then have t1: "trace h1 = trace h @ [(connectionState h, connectionState h1)]"
          and l: "legal_transition (connectionState h) (connectionState h1)"
          and n: "connectionState h1 \<noteq> CatchingUp"
          by (simp_all add: moved_step_def)
        have c: "connectionState h1 = Connected \<longrightarrow> connectionState h = CatchingUp"
        proof
          assume "connectionState h1 = Connected"
          with l have "legal_transition (connectionState h) Connected" by simp
          then show "connectionState h = CatchingUp" by (rule legal_into_Connected)
        qed
        have "trace (fst out) = trace h @ ((connectionState h, connectionState h1) # ts)
            \<and> dfa_walk (connectionState h) ((connectionState h, connectionState h1) # ts)
            \<and> promotions_from_CatchingUp_only ((connectionState h, connectionState h1) # ts)
            \<and> (snd out = None \<longrightarrow>
                 walk_end (connectionState h) ((connectionState h, connectionState h1) # ts) =
                 connectionState (fst out))"
          using ts t1 l n c by (simp add: o)
        then show ?thesis by (rule exI)
      qed
    qed
  qed
  then show ?case unfolding out_def .
qed


section \<open>The client ids along a run\<close>

lemma ids_applyForConnectedState:
  assumes "core_inv h"
  shows "ids_kept h (fst (applyForConnectedState s h))
         \<or> connectionState (fst (applyForConnectedState s h)) = Connected"
proof (cases "quorumClients h")
  case None
  then show ?thesis by (simp add: applyForConnectedState_no_quorum ids_kept_def)
next
  case (Some q)
  show ?thesis
  proof (cases "may_promote q h")
    case True
    show ?thesis using applyForConnectedState_promote [OF assms Some True, of s] by simp
  next
    case False
    show ?thesis using applyForConnectedState_reject [OF assms Some False, of s]
      by (simp add: ids_kept_def)
  qed
qed

lemma ids_kept_differ:
  "ids_kept h h' \<or> connectionState h' = Connected \<Longrightarrow> ids_differ h \<Longrightarrow> ids_differ h'"
  by (auto simp add: ids_kept_def ids_differ_def)

lemma ids_kept_via:
  "ids_kept h1 h' \<or> connectionState h' = Connected \<Longrightarrow> ids_kept h h1 \<Longrightarrow>
   ids_kept h h' \<or> connectionState h' = Connected"
  by (auto simp add: ids_kept_def)

lemma step_ids_differ:
  assumes "core_inv h" "ids_differ h" "fresh_event e h" "snd (step e h) = None"
  shows "ids_differ (fst (step e h))"
proof (cases e)
  case (InitProtocol q)
  then show ?thesis using assms(2) by (simp add: initProtocol_def ids_differ_def)
next
  case (ReceivedConnect m d)
  have a: "(shouldClientJoinWrite h \<longrightarrow> m = Write) \<and> (hasTimer (prevClientLeftTimer h) \<longrightarrow> m = Write)"
    using receivedConnectEvent_asserts_fail [of h m d] assms(4) ReceivedConnect by auto
  have f: "clientId h \<noteq> Some (details_clientId d)" using assms(3) ReceivedConnect by simp
  define h3 where "h3 = emit (ConnectionStateChanged CatchingUp (connectionState h) None)
                 (h\<lparr>connectionState := CatchingUp, pendingClientId := Some (details_clientId d)\<rparr>)"
  have c3: "connectionState h3 = CatchingUp" by (simp add: h3_def)
  have d3: "ids_differ h3" using f by (simp add: h3_def ids_differ_def)
  have "ids_differ (fst (startJoinOpTimer h3))"
    using d3 by (simp add: startJoinOpTimer_def ids_differ_def)
  moreover have "ids_differ (fst (setConnectionState Connected None h3))"
    by (simp add: setConnectionState_Connected c3 ids_differ_def)
  ultimately show ?thesis
    using a d3 ReceivedConnect receivedConnectEvent_eq [of h m d]
    by (simp add: Let_def flip: h3_def)
next
  case (ReceivedDisconnect reason)
  show ?thesis
  proof (cases "connectionState h = Disconnected")
    case True
    then show ?thesis using assms(2) ReceivedDisconnect
      by (simp add: receivedDisconnectEvent_def setConnectionState_same ids_differ_def)
  next
    case False
    then show ?thesis using ReceivedDisconnect
      by (simp add: receivedDisconnectEvent_def setConnectionState_Disconnected Let_def
          ids_differ_def)
  qed
next
  case (AddMember c m)
  define h1 where "h1 = quorum_add c m h"
  define h2 where "h2 = (if hasTimer (prevClientLeftTimer h1) then start_waitEvent else (\<lambda>x. x))
                (if hasTimer (joinOpTimer h1) then h1\<lparr>joinOpTimer := Timer_clear (joinOpTimer h1)\<rparr>
                 else emit (LogConnectionIssue ''ReceivedJoinOp'' None) h1)"
  have i1: "core_inv h1" unfolding h1_def using assms(1) by (rule inv_quorum_add)
  have i2: "core_inv h2" unfolding h2_def using i1 by (simp add: inv_timer_off Timer_clear_def)
  have k2: "ids_kept h h2" by (simp add: h2_def h1_def ids_kept_def)
  have k1: "ids_kept h h1" by (simp add: h1_def ids_kept_def)
  have "ids_differ (fst (applyForConnectedState AddMemberEvent h2))"
    using ids_kept_differ [OF ids_kept_via [OF ids_applyForConnectedState [OF i2] k2] assms(2)] .
  moreover have "ids_differ h1" using ids_kept_differ [OF disjI1 [OF k1] assms(2)] .
  moreover have "step e h = (if Some c = pendingClientId h1
      then applyForConnectedState AddMemberEvent h2 else (h1, None))"
    unfolding AddMember h2_def h1_def by (simp only: step.simps receivedAddMemberEvent_eq)
  ultimately show ?thesis by simp
next
  case (RemoveMember c)
  define h1 where "h1 = (quorum_remove c h)\<lparr>prevClientLeftTimer := Timer_clear (prevClientLeftTimer h)\<rparr>"
  have i1: "core_inv h1" unfolding h1_def using assms(1)
    by (simp add: inv_quorum_remove_cleared Timer_clear_def)
  have k1: "ids_kept h h1" by (simp add: h1_def ids_kept_def)
  have "ids_differ (fst (applyForConnectedState RemoveMemberEvent h1))"
    using ids_kept_differ [OF ids_kept_via [OF ids_applyForConnectedState [OF i1] k1] assms(2)] .
  moreover have "ids_differ (quorum_remove c h)" using assms(2) by (simp add: ids_differ_def)
  ultimately show ?thesis using RemoveMember
    by (simp add: receivedRemoveMemberEvent_def h1_def)
next
  case JoinOpTimerFires
  then show ?thesis using assms(2) by (simp add: joinOpTimer_callback_def ids_differ_def)
next
  case JoinOpTimerLateCallback
  then show ?thesis using assms(2) by (simp add: joinOpTimer_callback_def ids_differ_def)
next
  case PrevClientLeftTimerFires
  define h1 where "h1 = h\<lparr>prevClientLeftTimer := Timer_expire (prevClientLeftTimer h)\<rparr>"
  have i1: "core_inv h1" unfolding h1_def using assms(1)
    by (simp add: inv_timer_off Timer_expire_def)
  have k1: "ids_kept h h1" by (simp add: h1_def ids_kept_def)
  have "ids_differ (fst (applyForConnectedState Timeout h1))"
    using ids_kept_differ [OF ids_kept_via [OF ids_applyForConnectedState [OF i1] k1] assms(2)] .
  moreover have "ids_differ h1" using ids_kept_differ [OF disjI1 [OF k1] assms(2)] .
  ultimately show ?thesis using PrevClientLeftTimerFires
    by (simp add: prevClientLeftTimer_callback_def h1_def)
next
  case PrevClientLeftTimerLateCallback
  have "ids_differ (fst (applyForConnectedState Timeout h))"
    using ids_kept_differ [OF ids_applyForConnectedState [OF assms(1)] assms(2)] .
  then show ?thesis using PrevClientLeftTimerLateCallback assms(2)
    by (simp add: prevClientLeftTimer_callback_def)
next
  case ContainerIsSaved
  define h1 where "h1 = h\<lparr>prevClientLeftTimer := Timer_clear (prevClientLeftTimer h)\<rparr>"
  have i1: "core_inv h1" unfolding h1_def using assms(1)
    by (simp add: inv_timer_off Timer_clear_def)
  have k1: "ids_kept h h1" by (simp add: h1_def ids_kept_def)
  have "ids_differ (fst (applyForConnectedState ContainerSaved h1))"
    using ids_kept_differ [OF ids_kept_via [OF ids_applyForConnectedState [OF i1] k1] assms(2)] .
  then show ?thesis using ContainerIsSaved assms(2)
    by (simp add: containerSaved_def h1_def)
next
  case Disposed
  then show ?thesis using assms(2) by (simp add: dispose_def ids_differ_def)
next
  case (OwnerJoinWrite b)
  then show ?thesis using assms(2) by (simp add: ids_differ_def)
qed

lemma run_ids_differ:
  assumes "core_inv h" "ids_differ h" "fresh_connects es h" "snd (run es h) = None"
  shows "ids_differ (fst (run es h))"
  using assms
proof (induction es arbitrary: h)
  case Nil
  then show ?case by simp
next
  case (Cons e es)
  show ?case
  proof (cases "enabled e h")
    case False
    have r: "run (e # es) h = run es h" using False by (rule run_Cons_enabled(3))
    have "fresh_connects es h" using Cons.prems(3) False by simp
    then show ?thesis using Cons.IH [OF Cons.prems(1,2)] Cons.prems(4) by (simp only: r)
  next
    case True
    obtain h1 r1 where s: "step e h = (h1, r1)" by (cases "step e h")
    have n: "r1 = None"
    proof (cases r1)
      case None then show ?thesis .
    next
      case (Some x)
      have "run (e # es) h = (h1, Some x)"
        using True s [unfolded Some] by (rule run_Cons_enabled(2))
      then show ?thesis using Cons.prems(4) by simp
    qed
    have r: "run (e # es) h = run es h1"
      using True s [unfolded n] by (rule run_Cons_enabled(1))
    have i1: "core_inv h1" using step_inv [OF Cons.prems(1) True] s by simp
    have fe: "fresh_event e h" and fr: "fresh_connects es h1"
      using Cons.prems(3) True s n by simp_all
    have d1: "ids_differ h1"
      using step_ids_differ [OF Cons.prems(1,2) fe] s n by simp
    have "snd (run es h1) = None" using Cons.prems(4) by (simp only: r)
    then show ?thesis using Cons.IH [OF i1 d1 fr] by (simp only: r)
  qed
qed


section \<open>The claims\<close>

text \<open>
  C1. \<open>applyForConnectedState(source)\<close>, called with the quorum present in a state
  satisfying the invariant \<open>core_inv\<close>. The invariant holds in every state in which
  one of the four callers makes the call: it holds for a new handler, every operation
  preserves it, and before the call a caller only clears a timer, logs the late join or
  starts the wait span. The call never fails there. When \<open>pendingClientId\<close> is present,
  differs from \<open>clientId\<close>, is a member of the quorum and the leave timer is not armed,
  the handler was \<open>CatchingUp\<close> and becomes \<open>Connected\<close>: it closes the wait span if
  there is one, takes the pending id as its client id and reports the transition. When
  one of the four fails, the only effect is the telemetry event
  \<open>connectedStateRejected\<close>, of category \<open>error\<close> for the source \<open>timeout\<close> and
  \<open>generic\<close> for the three others, carrying the source, both ids and the two flags; no
  field of the handler changes and no transition is reported.
\<close>

theorem promotion_exactly_when_ready:
  assumes "core_inv h" and "quorumClients h = Some q"
  shows "snd (applyForConnectedState source h) = None
     \<and> (pendingClientId h \<noteq> None \<and> pendingClientId h \<noteq> clientId h
          \<and> (case pendingClientId h of None \<Rightarrow> False | Some p \<Rightarrow> getMember q p \<noteq> None)
          \<and> \<not> hasTimer (prevClientLeftTimer h) \<longrightarrow>
          connectionState h = CatchingUp
          \<and> connectionState (fst (applyForConnectedState source h)) = Connected
          \<and> clientId (fst (applyForConnectedState source h)) = pendingClientId h
          \<and> pendingClientId (fst (applyForConnectedState source h)) = pendingClientId h
          \<and> emitted (fst (applyForConnectedState source h)) =
               emitted h
               @ (case waitEvent h of None \<Rightarrow> [] | Some ev \<Rightarrow> [PerformanceEventEnd ev source])
               @ [ConnectionStateChanged Connected CatchingUp None])
     \<and> (\<not> (pendingClientId h \<noteq> None \<and> pendingClientId h \<noteq> clientId h
             \<and> (case pendingClientId h of None \<Rightarrow> False | Some p \<Rightarrow> getMember q p \<noteq> None)
             \<and> \<not> hasTimer (prevClientLeftTimer h)) \<longrightarrow>
          fst (applyForConnectedState source h) =
            h\<lparr>emitted := emitted h @
               [SendTelemetryEvent ''connectedStateRejected''
                  (Some (if source = Timeout then ''error'' else ''generic''))
                  (ConnectedStateRejectedDetails source (pendingClientId h) (clientId h)
                     (hasTimer (prevClientLeftTimer h))
                     (getMember q (pendingClientId_or_empty h) \<noteq> None))]\<rparr>)"
proof -
  have four: "may_promote q h =
      (pendingClientId h \<noteq> None \<and> pendingClientId h \<noteq> clientId h
       \<and> (case pendingClientId h of None \<Rightarrow> False | Some p \<Rightarrow> getMember q p \<noteq> None)
       \<and> \<not> hasTimer (prevClientLeftTimer h))"
    by (auto simp add: may_promote_def waitingForLeaveOp_def split: option.splits)
  show ?thesis
  proof (cases "may_promote q h")
    case True
    have c: "connectionState h = CatchingUp" using assms(1) True by (rule may_promote_CatchingUp)
    have w: "emitted (end_waitEvent source h) =
        emitted h @ (case waitEvent h of None \<Rightarrow> [] | Some ev \<Rightarrow> [PerformanceEventEnd ev source])"
      by (simp add: end_waitEvent_def split: option.split)
    show ?thesis
      using applyForConnectedState_promote [OF assms True, of source] True [unfolded four] c w
      by simp
  next
    case False
    show ?thesis
      using applyForConnectedState_reject [OF assms False, of source] False [unfolded four]
      by (simp add: rejected_event_def category_of_def waitingForLeaveOp_def emit_def)
  qed
qed

text \<open>Scenario S2: the join of \<open>c2\<close> promotes the handler.\<close>

theorem promotion_exactly_when_ready_witness:
  "core_inv S2_joined
   \<and> quorumClients S2_joined = Some [''c2'' \<mapsto> \<lparr>shouldHaveLeft = False\<rparr>]
   \<and> snd (applyForConnectedState AddMemberEvent S2_joined) = None
   \<and> connectionState (fst (applyForConnectedState AddMemberEvent S2_joined)) = Connected
   \<and> clientId (fst (applyForConnectedState AddMemberEvent S2_joined)) = Some ''c2''
   \<and> emitted (fst (applyForConnectedState AddMemberEvent S2_joined)) =
        [ConnectionStateChanged CatchingUp Disconnected None,
         ConnectionStateChanged Connected CatchingUp None]"
proof -
  have s: "S2_joined =
     \<lparr>connectionState = CatchingUp,
      pendingClientId = Some ''c2'',
      clientId = None,
      prevClientLeftTimer = \<lparr>hasTimer = False, armings = 0\<rparr>,
      joinOpTimer = \<lparr>hasTimer = False, armings = 1\<rparr>,
      waitEvent = None,
      quorumClients = Some [''c2'' \<mapsto> \<lparr>shouldHaveLeft = False\<rparr>],
      shouldClientJoinWrite = False,
      emitted = [ConnectionStateChanged CatchingUp Disconnected None]\<rparr>"
    by (simp add: S2_joined_def S2_waiting_def handler_defs)
  have i: "core_inv S2_joined"
    by (simp add: s core_inv_def)
  have q: "quorumClients S2_joined = Some [''c2'' \<mapsto> \<lparr>shouldHaveLeft = False\<rparr>]"
    by (simp add: s)
  show ?thesis
    using promotion_exactly_when_ready [OF i q, of AddMemberEvent] i q
    by (simp add: s getMember_def)
qed


text \<open>
  C2 (P6). Take any state the handler can be in and deliver any sequence of events
  none of which is a connect event: members added and removed, timers firing (also
  late), disconnects, and the other notifications of the model. The transitions the
  handler reports while doing so continue the ones reported before, and they form a
  walk on the graph of legal transitions that starts at the state the handler was in
  and, when no assertion fails, ends at the state it is in afterwards. None of them
  enters \<open>CatchingUp\<close>, and each one that enters \<open>Connected\<close> leaves \<open>CatchingUp\<close>.
\<close>

theorem emitted_transitions_walk_the_graph:
  assumes "run es0 (new_handler joinWrite initialClientId) = (h, r0)"
      and "\<forall>e \<in> set es. \<not> is_connect e"
  shows "take (length (trace h)) (trace (fst (run es h))) = trace h
     \<and> dfa_walk (connectionState h) (drop (length (trace h)) (trace (fst (run es h))))
     \<and> promotions_from_CatchingUp_only (drop (length (trace h)) (trace (fst (run es h))))
     \<and> (snd (run es h) = None \<longrightarrow>
          walk_end (connectionState h) (drop (length (trace h)) (trace (fst (run es h)))) =
          connectionState (fst (run es h)))"
proof -
  have "core_inv (fst (run es0 (new_handler joinWrite initialClientId)))"
    using inv_new by (rule run_inv)
  then have i: "core_inv h" using assms(1) by simp
  from run_dfa [OF i assms(2)]
  obtain ts where ts: "trace (fst (run es h)) = trace h @ ts
            \<and> dfa_walk (connectionState h) ts
            \<and> promotions_from_CatchingUp_only ts
            \<and> (snd (run es h) = None \<longrightarrow>
                 walk_end (connectionState h) ts = connectionState (fst (run es h)))" ..
  then show ?thesis by simp
qed

text \<open>
  Scenario S2 continued: from \<open>CatchingUp\<close>, the join of \<open>c2\<close> and then a disconnect give
  the walk \<open>CatchingUp\<close>, \<open>Connected\<close>, \<open>Disconnected\<close>.
\<close>

theorem emitted_transitions_walk_the_graph_witness:
  "run [InitProtocol Map.empty, ReceivedConnect Write \<lparr>details_clientId = ''c2''\<rparr>]
       (new_handler False None) = (S2_waiting, None)
   \<and> \<not> is_connect (AddMember ''c2'' \<lparr>shouldHaveLeft = False\<rparr>)
   \<and> \<not> is_connect (ReceivedDisconnect ''net'')
   \<and> connectionState S2_waiting = CatchingUp
   \<and> drop (length (trace S2_waiting))
        (trace (fst (run [AddMember ''c2'' \<lparr>shouldHaveLeft = False\<rparr>, ReceivedDisconnect ''net'']
                      S2_waiting))) =
      [(CatchingUp, Connected), (Connected, Disconnected)]
   \<and> dfa_walk CatchingUp [(CatchingUp, Connected), (Connected, Disconnected)]
   \<and> connectionState (fst (run [AddMember ''c2'' \<lparr>shouldHaveLeft = False\<rparr>, ReceivedDisconnect ''net'']
                      S2_waiting)) = Disconnected"
proof -
  have r: "run [InitProtocol Map.empty, ReceivedConnect Write \<lparr>details_clientId = ''c2''\<rparr>]
       (new_handler False None) = (S2_waiting, None)"
    by (simp add: S2_waiting_def handler_defs)
  have n: "\<forall>e \<in> set [AddMember ''c2'' \<lparr>shouldHaveLeft = False\<rparr>, ReceivedDisconnect ''net''].
          \<not> is_connect e"
    by simp
  show ?thesis
    using emitted_transitions_walk_the_graph [OF r n] r n
    by (simp add: S2_waiting_def trace_def handler_defs)
qed


text \<open>
  C3 (invariant I1) does not hold as stated: scenario S1, a first read connection
  \<open>c1\<close>, ends \<open>Connected\<close> with \<open>clientId\<close> and \<open>pendingClientId\<close> both present and equal.
\<close>

theorem I1_fails_while_Connected:
  "snd (run [ReceivedConnect Read \<lparr>details_clientId = ''c1''\<rparr>] (new_handler False None)) = None
   \<and> connectionState
        (fst (run [ReceivedConnect Read \<lparr>details_clientId = ''c1''\<rparr>] (new_handler False None))) =
      Connected
   \<and> clientId
        (fst (run [ReceivedConnect Read \<lparr>details_clientId = ''c1''\<rparr>] (new_handler False None))) =
      Some ''c1''
   \<and> pendingClientId
        (fst (run [ReceivedConnect Read \<lparr>details_clientId = ''c1''\<rparr>] (new_handler False None))) =
      Some ''c1''"
  by (simp add: handler_defs)

text \<open>
  C3 as amended. In every state the handler can be in: while \<open>Connected\<close>, \<open>clientId\<close>
  and \<open>pendingClientId\<close> are both present and equal, since promotion copies the pending
  id and only a disconnect clears it; while \<open>Disconnected\<close>, \<open>pendingClientId\<close> is absent.
  In every other state reached without a failed assertion, a \<open>clientId\<close> that is present
  differs from \<open>pendingClientId\<close>, provided no connection was given the id that the
  handler held as \<open>clientId\<close> at that moment.
\<close>

theorem client_ids_in_reachable_states:
  assumes "run es (new_handler joinWrite initialClientId) = (h, r)"
  shows "(connectionState h = Connected \<longrightarrow>
            pendingClientId h \<noteq> None \<and> clientId h = pendingClientId h)
     \<and> (connectionState h = Disconnected \<longrightarrow> pendingClientId h = None)
     \<and> (fresh_connects es (new_handler joinWrite initialClientId) \<and> r = None
          \<and> connectionState h \<noteq> Connected \<and> clientId h \<noteq> None \<longrightarrow>
            clientId h \<noteq> pendingClientId h)"
proof -
  have i0: "core_inv (new_handler joinWrite initialClientId)" by (rule inv_new)
  have "core_inv (fst (run es (new_handler joinWrite initialClientId)))"
    using i0 by (rule run_inv)
  then have i: "core_inv h" using assms by simp
  have d0: "ids_differ (new_handler joinWrite initialClientId)"
    by (simp add: ids_differ_def new_handler_def)
  have "ids_differ h"
    if "fresh_connects es (new_handler joinWrite initialClientId)" "r = None"
    using run_ids_differ [OF i0 d0 that(1)] assms that(2) by simp
  then show ?thesis using i by (auto simp add: core_inv_def ids_differ_def)
qed

text \<open>
  Scenario S4 up to the join of the new connection: the handler waits in \<open>CatchingUp\<close>
  for the leave of \<open>c_old\<close>, holding \<open>c_old\<close> as client id and \<open>c_new\<close> as pending id.
\<close>

theorem client_ids_in_reachable_states_witness:
  "snd (run (S4_events @ [ReceivedDisconnect ''net'',
                          ReceivedConnect Write \<lparr>details_clientId = ''c_new''\<rparr>,
                          AddMember ''c_new'' \<lparr>shouldHaveLeft = False\<rparr>])
          (new_handler True None)) = None
   \<and> fresh_connects (S4_events @ [ReceivedDisconnect ''net'',
                          ReceivedConnect Write \<lparr>details_clientId = ''c_new''\<rparr>,
                          AddMember ''c_new'' \<lparr>shouldHaveLeft = False\<rparr>])
          (new_handler True None)
   \<and> connectionState (fst (run (S4_events @ [ReceivedDisconnect ''net'',
                          ReceivedConnect Write \<lparr>details_clientId = ''c_new''\<rparr>,
                          AddMember ''c_new'' \<lparr>shouldHaveLeft = False\<rparr>])
          (new_handler True None))) = CatchingUp
   \<and> clientId (fst (run (S4_events @ [ReceivedDisconnect ''net'',
                          ReceivedConnect Write \<lparr>details_clientId = ''c_new''\<rparr>,
                          AddMember ''c_new'' \<lparr>shouldHaveLeft = False\<rparr>])
          (new_handler True None))) = Some ''c_old''
   \<and> pendingClientId (fst (run (S4_events @ [ReceivedDisconnect ''net'',
                          ReceivedConnect Write \<lparr>details_clientId = ''c_new''\<rparr>,
                          AddMember ''c_new'' \<lparr>shouldHaveLeft = False\<rparr>])
          (new_handler True None))) = Some ''c_new''"
  using client_ids_in_reachable_states
    [of "S4_events @ [ReceivedDisconnect ''net'',
                          ReceivedConnect Write \<lparr>details_clientId = ''c_new''\<rparr>,
                          AddMember ''c_new'' \<lparr>shouldHaveLeft = False\<rparr>]" True None
        "fst (run (S4_events @ [ReceivedDisconnect ''net'',
                          ReceivedConnect Write \<lparr>details_clientId = ''c_new''\<rparr>,
                          AddMember ''c_new'' \<lparr>shouldHaveLeft = False\<rparr>])
          (new_handler True None))" None]
  by (simp add: S4_events_def handler_defs)


text \<open>
  C4 (invariant I5) does not hold as stated: a handler built with the initial client
  id \<open>c0\<close>, whose owner does not expect a write connection, is given a protocol whose
  quorum contains \<open>c0\<close>. \<open>initProtocol\<close> arms the leave timer although
  \<open>shouldClientJoinWrite()\<close> is false.
\<close>

theorem I5_fails_after_initProtocol:
  "snd (run [InitProtocol [''c0'' \<mapsto> \<lparr>shouldHaveLeft = False\<rparr>]] (new_handler False (Some ''c0'')))
     = None
   \<and> hasTimer (prevClientLeftTimer
        (fst (run [InitProtocol [''c0'' \<mapsto> \<lparr>shouldHaveLeft = False\<rparr>]]
               (new_handler False (Some ''c0'')))))
   \<and> clientId_in_quorum
        (fst (run [InitProtocol [''c0'' \<mapsto> \<lparr>shouldHaveLeft = False\<rparr>]]
               (new_handler False (Some ''c0''))))
   \<and> \<not> shouldClientJoinWrite
        (fst (run [InitProtocol [''c0'' \<mapsto> \<lparr>shouldHaveLeft = False\<rparr>]]
               (new_handler False (Some ''c0''))))"
  by (simp add: handler_defs clientId_in_quorum_def)

text \<open>
  C4 as amended. In every state the handler can be in, the leave timer is armed only
  when \<open>clientId\<close> is present and is a member of the quorum. What
  \<open>shouldClientJoinWrite()\<close> answers is looked at by one of the two operations that arm
  the timer only: a disconnect that arms it found the answer true, whereas
  \<open>initProtocol\<close> arms it exactly when the client id is found in the quorum it is given,
  whatever the answer.
\<close>

theorem leave_timer_armed_only_for_quorum_member:
  assumes "run es (new_handler joinWrite initialClientId) = (h, r)"
  shows "(hasTimer (prevClientLeftTimer h) \<longrightarrow>
            (\<exists>c q m. clientId h = Some c \<and> quorumClients h = Some q \<and> getMember q c = Some m))
     \<and> (armings (prevClientLeftTimer (fst (receivedDisconnectEvent reason h))) \<noteq>
          armings (prevClientLeftTimer h) \<longrightarrow>
            shouldClientJoinWrite h \<and> lookup_client h \<noteq> None
            \<and> \<not> hasTimer (prevClientLeftTimer h))
     \<and> (armings (prevClientLeftTimer (fst (initProtocol quorum h))) \<noteq>
          armings (prevClientLeftTimer h) \<longleftrightarrow>
            (case clientId h of None \<Rightarrow> False | Some c \<Rightarrow> getMember quorum c \<noteq> None))"
proof -
  have "core_inv (fst (run es (new_handler joinWrite initialClientId)))"
    using inv_new by (rule run_inv)
  then have i: "core_inv h" using assms by simp
  have a: "hasTimer (prevClientLeftTimer h) \<longrightarrow>
            (\<exists>c q m. clientId h = Some c \<and> quorumClients h = Some q \<and> getMember q c = Some m)"
    using i by (simp add: core_inv_def clientId_in_quorum_iff getMember_def)
  have b: "armings (prevClientLeftTimer (fst (receivedDisconnectEvent reason h))) \<noteq>
          armings (prevClientLeftTimer h) \<longrightarrow>
            shouldClientJoinWrite h \<and> lookup_client h \<noteq> None
            \<and> \<not> hasTimer (prevClientLeftTimer h)"
  proof (cases "connectionState h = Disconnected")
    case True
    then show ?thesis by (simp add: receivedDisconnectEvent_def setConnectionState_same)
  next
    case False
    then show ?thesis
      by (simp add: receivedDisconnectEvent_def setConnectionState_Disconnected Let_def
          leave_wait_armed_on_disconnect_def Timer_restart_def)
  qed
  have c: "armings (prevClientLeftTimer (fst (initProtocol quorum h))) \<noteq>
          armings (prevClientLeftTimer h) \<longleftrightarrow>
            (case clientId h of None \<Rightarrow> False | Some c \<Rightarrow> getMember quorum c \<noteq> None)"
    by (simp add: initProtocol_def Timer_restart_def)
  show ?thesis using a b c by blast
qed

text \<open>Scenario S4: the disconnect of \<open>c_old\<close> arms the leave timer.\<close>

theorem leave_timer_armed_only_for_quorum_member_witness:
  "snd (run (S4_events @ [ReceivedDisconnect ''net'']) (new_handler True None)) = None
   \<and> hasTimer (prevClientLeftTimer
        (fst (run (S4_events @ [ReceivedDisconnect ''net'']) (new_handler True None))))
   \<and> clientId (fst (run (S4_events @ [ReceivedDisconnect ''net'']) (new_handler True None))) =
        Some ''c_old''
   \<and> quorumClients (fst (run (S4_events @ [ReceivedDisconnect ''net'']) (new_handler True None))) =
        Some [''c_old'' \<mapsto> \<lparr>shouldHaveLeft = False\<rparr>]"
  using leave_timer_armed_only_for_quorum_member
    [of "S4_events @ [ReceivedDisconnect ''net'']" True None
        "fst (run (S4_events @ [ReceivedDisconnect ''net'']) (new_handler True None))" None]
  by (simp add: S4_events_def handler_defs)


text \<open>
  C5 does not hold as stated: a new handler whose owner expects a write connection is
  \<open>Disconnected\<close>; a read connection makes \<open>receivedConnectEvent\<close> fail its assertion
  0x30a. The handler is left in \<open>CatchingUp\<close> with no pending id and nothing reported:
  it has neither armed the join-op timer, nor returned, nor become \<open>Connected\<close>.
\<close>

theorem read_connect_fails_mode_assertion:
  "run [] (new_handler True None) = (new_handler True None, None)
   \<and> connectionState (new_handler True None) = Disconnected
   \<and> snd (receivedConnectEvent Read \<lparr>details_clientId = ''c1''\<rparr> (new_handler True None)) =
        Some Assert_0x30a
   \<and> connectionState (fst (receivedConnectEvent Read \<lparr>details_clientId = ''c1''\<rparr>
                           (new_handler True None))) = CatchingUp
   \<and> pendingClientId (fst (receivedConnectEvent Read \<lparr>details_clientId = ''c1''\<rparr>
                           (new_handler True None))) = None
   \<and> hasTimer (joinOpTimer (fst (receivedConnectEvent Read \<lparr>details_clientId = ''c1''\<rparr>
                           (new_handler True None)))) = False
   \<and> emitted (fst (receivedConnectEvent Read \<lparr>details_clientId = ''c1''\<rparr>
                           (new_handler True None))) = []"
  by (simp add: handler_defs)

text \<open>
  C5 as amended. \<open>receivedConnectEvent\<close> called in state \<open>Disconnected\<close>, in any state the
  handler can be in, first sets the state to \<open>CatchingUp\<close>. When the mode is not write
  although \<open>shouldClientJoinWrite()\<close> is true, it fails assertion 0x30a, and when the mode
  is not write although the leave timer is armed, it fails assertion 0x2a6; in both
  cases nothing else has changed: no pending id is set and no transition is reported.
  Otherwise it sets \<open>pendingClientId\<close> to \<open>details.clientId\<close> and reports the transition
  from \<open>Disconnected\<close> to \<open>CatchingUp\<close>. Then, exactly when the mode is write and the
  quorum is absent or does not contain the pending id, it arms the join-op timer and
  returns. Otherwise, with the leave timer armed (the mode is then write) it returns
  without doing anything more, and with the leave timer not armed it goes through
  \<open>setConnectionState\<close> and is \<open>Connected\<close> when it returns, with the pending id as its
  client id and the second transition reported; in these two cases the join-op timer
  is left alone.
\<close>

theorem connect_when_Disconnected:
  assumes "run es (new_handler joinWrite initialClientId) = (h, r)"
      and "connectionState h = Disconnected"
  shows "(shouldClientJoinWrite h \<and> m \<noteq> Write \<longrightarrow>
            receivedConnectEvent m d h = (h\<lparr>connectionState := CatchingUp\<rparr>, Some Assert_0x30a))
     \<and> (\<not> shouldClientJoinWrite h \<and> hasTimer (prevClientLeftTimer h) \<and> m \<noteq> Write \<longrightarrow>
            receivedConnectEvent m d h = (h\<lparr>connectionState := CatchingUp\<rparr>, Some Assert_0x2a6))
     \<and> ((shouldClientJoinWrite h \<longrightarrow> m = Write) \<and> (hasTimer (prevClientLeftTimer h) \<longrightarrow> m = Write) \<longrightarrow>
         (m = Write \<and> getMember_opt (quorumClients h) (details_clientId d) = None \<longrightarrow>
            receivedConnectEvent m d h =
              (h\<lparr>connectionState := CatchingUp,
                 pendingClientId := Some (details_clientId d),
                 joinOpTimer := Timer_start (joinOpTimer h),
                 emitted := emitted h @ [ConnectionStateChanged CatchingUp Disconnected None]\<rparr>,
               None))
         \<and> (\<not> (m = Write \<and> getMember_opt (quorumClients h) (details_clientId d) = None)
              \<and> hasTimer (prevClientLeftTimer h) \<longrightarrow>
            m = Write
            \<and> receivedConnectEvent m d h =
              (h\<lparr>connectionState := CatchingUp,
                 pendingClientId := Some (details_clientId d),
                 emitted := emitted h @ [ConnectionStateChanged CatchingUp Disconnected None]\<rparr>,
               None))
         \<and> (\<not> (m = Write \<and> getMember_opt (quorumClients h) (details_clientId d) = None)
              \<and> \<not> hasTimer (prevClientLeftTimer h) \<longrightarrow>
            receivedConnectEvent m d h =
              setConnectionState Connected None
                (h\<lparr>connectionState := CatchingUp,
                   pendingClientId := Some (details_clientId d),
                   emitted := emitted h @ [ConnectionStateChanged CatchingUp Disconnected None]\<rparr>)
            \<and> snd (receivedConnectEvent m d h) = None
            \<and> connectionState (fst (receivedConnectEvent m d h)) = Connected
            \<and> clientId (fst (receivedConnectEvent m d h)) = Some (details_clientId d)
            \<and> pendingClientId (fst (receivedConnectEvent m d h)) = Some (details_clientId d)
            \<and> joinOpTimer (fst (receivedConnectEvent m d h)) = joinOpTimer h
            \<and> emitted (fst (receivedConnectEvent m d h)) =
                 emitted h @ [ConnectionStateChanged CatchingUp Disconnected None,
                              ConnectionStateChanged Connected CatchingUp None]))"
proof -
  have f1: "shouldClientJoinWrite h \<and> m \<noteq> Write \<longrightarrow>
            receivedConnectEvent m d h = (h\<lparr>connectionState := CatchingUp\<rparr>, Some Assert_0x30a)"
    by (simp add: receivedConnectEvent_fails_0x30a)
  have f2: "\<not> shouldClientJoinWrite h \<and> hasTimer (prevClientLeftTimer h) \<and> m \<noteq> Write \<longrightarrow>
            receivedConnectEvent m d h = (h\<lparr>connectionState := CatchingUp\<rparr>, Some Assert_0x2a6)"
    by (simp add: receivedConnectEvent_fails_0x2a6)
  have "core_inv (fst (run es (new_handler joinWrite initialClientId)))"
    using inv_new by (rule run_inv)
  then have "core_inv h" using assms(1) by simp
  then have j: "\<not> hasTimer (joinOpTimer h)" using assms(2) by (simp add: core_inv_def)
  define h3 where "h3 = h\<lparr>connectionState := CatchingUp,
                   pendingClientId := Some (details_clientId d),
                   emitted := emitted h @ [ConnectionStateChanged CatchingUp Disconnected None]\<rparr>"
  have c3: "connectionState h3 = CatchingUp" by (simp add: h3_def)
  have s: "startJoinOpTimer h3 = (h3\<lparr>joinOpTimer := Timer_start (joinOpTimer h)\<rparr>, None)"
    using j by (simp add: startJoinOpTimer_def h3_def)
  have g3: "pendingClientId h3 = Some (details_clientId d)"
    "emitted h3 = emitted h @ [ConnectionStateChanged CatchingUp Disconnected None]"
    "joinOpTimer h3 = joinOpTimer h"
    by (simp_all add: h3_def)
  have a: "h3\<lparr>joinOpTimer := Timer_start (joinOpTimer h)\<rparr> =
      h\<lparr>connectionState := CatchingUp,
                 pendingClientId := Some (details_clientId d),
                 joinOpTimer := Timer_start (joinOpTimer h),
                 emitted := emitted h @ [ConnectionStateChanged CatchingUp Disconnected None]\<rparr>"
    by (simp add: h3_def)
  have ok: "(m = Write \<and> getMember_opt (quorumClients h) (details_clientId d) = None \<longrightarrow>
            receivedConnectEvent m d h = (h3\<lparr>joinOpTimer := Timer_start (joinOpTimer h)\<rparr>, None))
         \<and> (\<not> (m = Write \<and> getMember_opt (quorumClients h) (details_clientId d) = None)
              \<and> hasTimer (prevClientLeftTimer h) \<longrightarrow>
            m = Write \<and> receivedConnectEvent m d h = (h3, None))
         \<and> (\<not> (m = Write \<and> getMember_opt (quorumClients h) (details_clientId d) = None)
              \<and> \<not> hasTimer (prevClientLeftTimer h) \<longrightarrow>
            receivedConnectEvent m d h = setConnectionState Connected None h3
            \<and> snd (receivedConnectEvent m d h) = None
            \<and> connectionState (fst (receivedConnectEvent m d h)) = Connected
            \<and> clientId (fst (receivedConnectEvent m d h)) = Some (details_clientId d)
            \<and> pendingClientId (fst (receivedConnectEvent m d h)) = Some (details_clientId d)
            \<and> joinOpTimer (fst (receivedConnectEvent m d h)) = joinOpTimer h
            \<and> emitted (fst (receivedConnectEvent m d h)) =
                 emitted h @ [ConnectionStateChanged CatchingUp Disconnected None,
                              ConnectionStateChanged Connected CatchingUp None])"
    if p: "shouldClientJoinWrite h \<longrightarrow> m = Write" "hasTimer (prevClientLeftTimer h) \<longrightarrow> m = Write"
  proof -
    have e: "receivedConnectEvent m d h =
        (if m = Write \<and> getMember_opt (quorumClients h) (details_clientId d) = None
         then startJoinOpTimer h3
         else if \<not> hasTimer (prevClientLeftTimer h) then setConnectionState Connected None h3
         else (h3, None))"
      using receivedConnectEvent_eq [OF p, of d] assms(2)
      by (simp add: Let_def h3_def emit_def)
    show ?thesis
      unfolding e using p(2)
      by (auto simp add: s setConnectionState_Connected c3 g3)
  qed
  then have "(shouldClientJoinWrite h \<longrightarrow> m = Write) \<and> (hasTimer (prevClientLeftTimer h) \<longrightarrow> m = Write) \<longrightarrow>
         (m = Write \<and> getMember_opt (quorumClients h) (details_clientId d) = None \<longrightarrow>
            receivedConnectEvent m d h = (h3\<lparr>joinOpTimer := Timer_start (joinOpTimer h)\<rparr>, None))
         \<and> (\<not> (m = Write \<and> getMember_opt (quorumClients h) (details_clientId d) = None)
              \<and> hasTimer (prevClientLeftTimer h) \<longrightarrow>
            m = Write \<and> receivedConnectEvent m d h = (h3, None))
         \<and> (\<not> (m = Write \<and> getMember_opt (quorumClients h) (details_clientId d) = None)
              \<and> \<not> hasTimer (prevClientLeftTimer h) \<longrightarrow>
            receivedConnectEvent m d h = setConnectionState Connected None h3
            \<and> snd (receivedConnectEvent m d h) = None
            \<and> connectionState (fst (receivedConnectEvent m d h)) = Connected
            \<and> clientId (fst (receivedConnectEvent m d h)) = Some (details_clientId d)
            \<and> pendingClientId (fst (receivedConnectEvent m d h)) = Some (details_clientId d)
            \<and> joinOpTimer (fst (receivedConnectEvent m d h)) = joinOpTimer h
            \<and> emitted (fst (receivedConnectEvent m d h)) =
                 emitted h @ [ConnectionStateChanged CatchingUp Disconnected None,
                              ConnectionStateChanged Connected CatchingUp None])"
    by (intro impI) (elim conjE)
  then have f3: "(shouldClientJoinWrite h \<longrightarrow> m = Write) \<and> (hasTimer (prevClientLeftTimer h) \<longrightarrow> m = Write) \<longrightarrow>
         (m = Write \<and> getMember_opt (quorumClients h) (details_clientId d) = None \<longrightarrow>
            receivedConnectEvent m d h =
              (h\<lparr>connectionState := CatchingUp,
                 pendingClientId := Some (details_clientId d),
                 joinOpTimer := Timer_start (joinOpTimer h),
                 emitted := emitted h @ [ConnectionStateChanged CatchingUp Disconnected None]\<rparr>,
               None))
         \<and> (\<not> (m = Write \<and> getMember_opt (quorumClients h) (details_clientId d) = None)
              \<and> hasTimer (prevClientLeftTimer h) \<longrightarrow>
            m = Write
            \<and> receivedConnectEvent m d h =
              (h\<lparr>connectionState := CatchingUp,
                 pendingClientId := Some (details_clientId d),
                 emitted := emitted h @ [ConnectionStateChanged CatchingUp Disconnected None]\<rparr>,
               None))
         \<and> (\<not> (m = Write \<and> getMember_opt (quorumClients h) (details_clientId d) = None)
              \<and> \<not> hasTimer (prevClientLeftTimer h) \<longrightarrow>
            receivedConnectEvent m d h =
              setConnectionState Connected None
                (h\<lparr>connectionState := CatchingUp,
                   pendingClientId := Some (details_clientId d),
                   emitted := emitted h @ [ConnectionStateChanged CatchingUp Disconnected None]\<rparr>)
            \<and> snd (receivedConnectEvent m d h) = None
            \<and> connectionState (fst (receivedConnectEvent m d h)) = Connected
            \<and> clientId (fst (receivedConnectEvent m d h)) = Some (details_clientId d)
            \<and> pendingClientId (fst (receivedConnectEvent m d h)) = Some (details_clientId d)
            \<and> joinOpTimer (fst (receivedConnectEvent m d h)) = joinOpTimer h
            \<and> emitted (fst (receivedConnectEvent m d h)) =
                 emitted h @ [ConnectionStateChanged CatchingUp Disconnected None,
                              ConnectionStateChanged Connected CatchingUp None])"
    unfolding a unfolding h3_def .
  from f1 f2 f3 show ?thesis by (intro conjI)
qed

text \<open>
  Scenario S4 after the disconnect, the leave timer armed: a write connection \<open>c_new\<close>
  not yet in the quorum arms the join-op timer; with \<open>c_new\<close> already in the quorum
  the call returns in \<open>CatchingUp\<close> and leaves the promotion to the leave of \<open>c_old\<close>.
\<close>

theorem connect_when_Disconnected_witness:
  "run (S4_events @ [ReceivedDisconnect ''net'']) (new_handler True None) = (S4_disconnected, None)
   \<and> connectionState S4_disconnected = Disconnected
   \<and> shouldClientJoinWrite S4_disconnected
   \<and> hasTimer (prevClientLeftTimer S4_disconnected)
   \<and> getMember_opt (quorumClients S4_disconnected) ''c_new'' = None
   \<and> snd (receivedConnectEvent Write \<lparr>details_clientId = ''c_new''\<rparr> S4_disconnected) = None
   \<and> connectionState (fst (receivedConnectEvent Write \<lparr>details_clientId = ''c_new''\<rparr> S4_disconnected))
        = CatchingUp
   \<and> pendingClientId (fst (receivedConnectEvent Write \<lparr>details_clientId = ''c_new''\<rparr> S4_disconnected))
        = Some ''c_new''
   \<and> joinOpTimer (fst (receivedConnectEvent Write \<lparr>details_clientId = ''c_new''\<rparr> S4_disconnected))
        = \<lparr>hasTimer = True, armings = 2\<rparr>
   \<and> run (S4_events @ [AddMember ''c_new'' \<lparr>shouldHaveLeft = False\<rparr>, ReceivedDisconnect ''net''])
         (new_handler True None) = (S4_disconnected_joined, None)
   \<and> connectionState S4_disconnected_joined = Disconnected
   \<and> hasTimer (prevClientLeftTimer S4_disconnected_joined)
   \<and> getMember_opt (quorumClients S4_disconnected_joined) ''c_new'' \<noteq> None
   \<and> snd (receivedConnectEvent Write \<lparr>details_clientId = ''c_new''\<rparr> S4_disconnected_joined) = None
   \<and> connectionState
        (fst (receivedConnectEvent Write \<lparr>details_clientId = ''c_new''\<rparr> S4_disconnected_joined))
        = CatchingUp
   \<and> joinOpTimer (fst (receivedConnectEvent Write \<lparr>details_clientId = ''c_new''\<rparr> S4_disconnected_joined))
        = \<lparr>hasTimer = False, armings = 1\<rparr>
   \<and> trace (fst (receivedConnectEvent Write \<lparr>details_clientId = ''c_new''\<rparr> S4_disconnected_joined))
        = [(Disconnected, CatchingUp), (CatchingUp, Connected), (Connected, Disconnected),
           (Disconnected, CatchingUp)]"
proof -
  have r1: "run (S4_events @ [ReceivedDisconnect ''net'']) (new_handler True None) =
      (S4_disconnected, None)"
    by (simp add: S4_disconnected_def S4_events_def handler_defs)
  have s1: "connectionState S4_disconnected = Disconnected"
    by (simp add: S4_disconnected_def S4_events_def handler_defs)
  have r2: "run (S4_events @ [AddMember ''c_new'' \<lparr>shouldHaveLeft = False\<rparr>, ReceivedDisconnect ''net''])
         (new_handler True None) = (S4_disconnected_joined, None)"
    by (simp add: S4_disconnected_joined_def S4_events_def handler_defs)
  have s2: "connectionState S4_disconnected_joined = Disconnected"
    by (simp add: S4_disconnected_joined_def S4_events_def handler_defs)
  show ?thesis
    using connect_when_Disconnected [OF r1 s1, of Write "\<lparr>details_clientId = ''c_new''\<rparr>"]
      connect_when_Disconnected [OF r2 s2, of Write "\<lparr>details_clientId = ''c_new''\<rparr>"]
      r1 r2
    by (simp add: S4_disconnected_def S4_disconnected_joined_def S4_events_def trace_def
        handler_defs)
qed


text \<open>
  C6. On a disconnect from a state other than \<open>Disconnected\<close> the handler arms
  \<open>prevClientLeftTimer\<close> exactly when the current \<open>clientId\<close> is found in the quorum,
  \<open>shouldClientJoinWrite()\<close> is true and the timer is not armed yet. When it arms the
  timer it sends no \<open>noWaitOnDisconnected\<close> event; when it does not, it sends that event
  and leaves the timer as it was, so an armed timer is neither cancelled nor started
  anew. Either way the transition to \<open>Disconnected\<close> is reported last.
\<close>

theorem disconnect_arms_leave_timer:
  assumes "connectionState h \<noteq> Disconnected"
  shows "snd (receivedDisconnectEvent reason h) = None
     \<and> (lookup_client h \<noteq> None \<and> shouldClientJoinWrite h \<and> \<not> hasTimer (prevClientLeftTimer h) \<longrightarrow>
          prevClientLeftTimer (fst (receivedDisconnectEvent reason h)) =
            Timer_restart (prevClientLeftTimer h)
          \<and> emitted (fst (receivedDisconnectEvent reason h)) =
              emitted h @ [ConnectionStateChanged Disconnected (connectionState h) (Some reason)])
     \<and> (\<not> (lookup_client h \<noteq> None \<and> shouldClientJoinWrite h \<and> \<not> hasTimer (prevClientLeftTimer h)) \<longrightarrow>
          prevClientLeftTimer (fst (receivedDisconnectEvent reason h)) = prevClientLeftTimer h
          \<and> emitted (fst (receivedDisconnectEvent reason h)) =
              emitted h @
              [SendTelemetryEvent ''noWaitOnDisconnected'' None
                 (NoWaitOnDisconnectedDetails (lookup_client h \<noteq> None)
                    (hasTimer (prevClientLeftTimer h)) (shouldClientJoinWrite h)),
               ConnectionStateChanged Disconnected (connectionState h) (Some reason)])
     \<and> (hasTimer (prevClientLeftTimer h) \<longrightarrow>
          prevClientLeftTimer (fst (receivedDisconnectEvent reason h)) = prevClientLeftTimer h)"
proof (cases "leave_wait_armed_on_disconnect h")
  case True
  then show ?thesis
    using assms True [unfolded leave_wait_armed_on_disconnect_def]
    by (simp add: receivedDisconnectEvent_def setConnectionState_Disconnected Let_def)
next
  case False
  then show ?thesis
    using assms False [unfolded leave_wait_armed_on_disconnect_def]
    by (simp add: receivedDisconnectEvent_def setConnectionState_Disconnected Let_def)
qed

theorem disconnect_arms_leave_timer_witness:
  "connectionState S4_connected \<noteq> Disconnected
   \<and> lookup_client S4_connected \<noteq> None
   \<and> prevClientLeftTimer (fst (receivedDisconnectEvent ''net'' S4_connected)) =
        \<lparr>hasTimer = True, armings = 1\<rparr>
   \<and> emitted (fst (receivedDisconnectEvent ''net'' S4_connected)) =
        [ConnectionStateChanged CatchingUp Disconnected None,
         ConnectionStateChanged Connected CatchingUp None,
         ConnectionStateChanged Disconnected Connected (Some ''net'')]"
  using disconnect_arms_leave_timer [of S4_connected "''net''"]
  by (simp add: S4_connected_eq lookup_client_def getMember_opt_def getMember_def
      Timer_restart_def)


text \<open>
  C7. When \<open>receivedDisconnectEvent\<close> is called while the state is already
  \<open>Disconnected\<close>, the handler sends the error event \<open>setConnectionStateSame\<close> and
  returns: the connection state, \<open>clientId\<close>, \<open>pendingClientId\<close> and both timers are
  what they were, the only field that changes is the list of outputs, which gains that
  one error event, and no transition is reported.
\<close>

theorem redundant_disconnect_is_ignored:
  assumes "connectionState h = Disconnected"
  shows "receivedDisconnectEvent reason h =
           (h\<lparr>emitted := emitted h @ [SendErrorEvent ''setConnectionStateSame'' Disconnected]\<rparr>, None)
         \<and> connectionState (fst (receivedDisconnectEvent reason h)) = connectionState h
         \<and> clientId (fst (receivedDisconnectEvent reason h)) = clientId h
         \<and> pendingClientId (fst (receivedDisconnectEvent reason h)) = pendingClientId h
         \<and> prevClientLeftTimer (fst (receivedDisconnectEvent reason h)) = prevClientLeftTimer h
         \<and> joinOpTimer (fst (receivedDisconnectEvent reason h)) = joinOpTimer h
         \<and> trace (fst (receivedDisconnectEvent reason h)) = trace h"
  using assms by (simp add: receivedDisconnectEvent_def setConnectionState_same emit_def trace_def)

theorem redundant_disconnect_is_ignored_witness:
  "connectionState (new_handler False None) = Disconnected
   \<and> emitted (fst (receivedDisconnectEvent ''net'' (new_handler False None))) =
        [SendErrorEvent ''setConnectionStateSame'' Disconnected]
   \<and> pendingClientId (fst (receivedDisconnectEvent ''net'' (new_handler False None))) = None
   \<and> snd (receivedDisconnectEvent ''net'' (new_handler False None)) = None"
  using redundant_disconnect_is_ignored [of "new_handler False None" "''net''"]
  by (simp add: new_handler_def)


text \<open>
  C8. The callback of the join-op timer never changes the connection state, \<open>clientId\<close>
  or \<open>pendingClientId\<close> and never fails. When the state is not \<open>CatchingUp\<close> (a callback
  that runs late, after the timer was cancelled) it returns with no effect at all;
  otherwise its only effect is the \<open>NoJoinOp\<close> diagnostic, carrying whether the quorum
  is initialised, the pending id, whether that id is in the quorum and whether the
  handler waits for the leave. The callback of the leave timer fails its assertion in
  state \<open>Connected\<close> and otherwise is \<open>applyForConnectedState("timeout")\<close>.
\<close>

theorem timer_callbacks:
  "connectionState (fst (joinOpTimer_callback h)) = connectionState h
   \<and> clientId (fst (joinOpTimer_callback h)) = clientId h
   \<and> pendingClientId (fst (joinOpTimer_callback h)) = pendingClientId h
   \<and> snd (joinOpTimer_callback h) = None
   \<and> (connectionState h \<noteq> CatchingUp \<longrightarrow> joinOpTimer_callback h = (h, None))
   \<and> (connectionState h = CatchingUp \<longrightarrow>
        fst (joinOpTimer_callback h) =
          h\<lparr>emitted := emitted h @
             [LogConnectionIssue ''NoJoinOp''
                (Some (NoJoinOpDetails (quorumClients h \<noteq> None) (pendingClientId h)
                   (getMember_opt (quorumClients h) (pendingClientId_or_empty h) \<noteq> None)
                   (hasTimer (prevClientLeftTimer h))))]\<rparr>)
   \<and> (connectionState h = Connected \<longrightarrow> prevClientLeftTimer_callback h = (h, Some Assert_0x2ac))
   \<and> (connectionState h \<noteq> Connected \<longrightarrow>
        prevClientLeftTimer_callback h = applyForConnectedState Timeout h)"
  by (simp add: joinOpTimer_callback_def prevClientLeftTimer_callback_def emit_def
      waitingForLeaveOp_def)

theorem timer_callbacks_witness:
  "connectionState S4_connected \<noteq> CatchingUp
   \<and> joinOpTimer_callback S4_connected = (S4_connected, None)
   \<and> prevClientLeftTimer_callback S4_connected = (S4_connected, Some Assert_0x2ac)"
  using timer_callbacks [of S4_connected]
  by (simp add: S4_connected_eq)





text \<open>
  C10 does not hold as stated: in scenario S4 the handler is \<open>Connected\<close> as \<open>c_old\<close> and
  its owner expects a write connection. A read connect event fails assertion 0x30a
  before \<open>pendingClientId\<close> is written and before anything is reported: the pending id
  is still \<open>c_old\<close> and the outputs are what they were.
\<close>

theorem connect_stopped_by_mode_assertion:
  "connectionState S4_connected = Connected
   \<and> snd (receivedConnectEvent Read \<lparr>details_clientId = ''c_new''\<rparr> S4_connected) =
        Some Assert_0x30a
   \<and> connectionState (fst (receivedConnectEvent Read \<lparr>details_clientId = ''c_new''\<rparr> S4_connected)) =
        CatchingUp
   \<and> pendingClientId (fst (receivedConnectEvent Read \<lparr>details_clientId = ''c_new''\<rparr> S4_connected)) =
        Some ''c_old''
   \<and> emitted (fst (receivedConnectEvent Read \<lparr>details_clientId = ''c_new''\<rparr> S4_connected)) =
        emitted S4_connected"
  by (simp add: S4_connected_eq handler_defs)

text \<open>
  C10 as amended. \<open>receivedConnectEvent\<close> does not look at the state it is called in:
  whatever the starting state, it first sets the state to \<open>CatchingUp\<close>. When the mode is
  not write although \<open>shouldClientJoinWrite()\<close> is true it fails assertion 0x30a, and when
  the mode is not write although the leave timer is armed it fails assertion 0x2a6,
  in both cases with nothing else changed. Otherwise it writes \<open>details.clientId\<close> into
  \<open>pendingClientId\<close> and reports the transition to \<open>CatchingUp\<close> from the starting state,
  before anything else it sends; the state it leaves behind is \<open>CatchingUp\<close>, or
  \<open>Connected\<close> when it goes on to promote in the same call. From a starting state other
  than \<open>Disconnected\<close> the reported transition is none of the four legal ones. After
  the report the handler fails only when it has to arm the join-op timer (write mode,
  the pending id not in the quorum) and that timer is armed already, by assertion
  0x234; in every other case it returns normally. The catch-up adapter, when it is the
  owner, refuses the report: given a transition to \<open>CatchingUp\<close> while it does not show
  \<open>Disconnected\<close>, its \<open>connectionStateChanged\<close> fails the assertion
  \<open>connectivity transitions\<close> and forwards nothing.
\<close>

theorem connect_in_any_state:
  "(connectionState (fst (receivedConnectEvent m d h)) = CatchingUp
      \<or> connectionState (fst (receivedConnectEvent m d h)) = Connected)
   \<and> (shouldClientJoinWrite h \<and> m \<noteq> Write \<longrightarrow>
        receivedConnectEvent m d h = (h\<lparr>connectionState := CatchingUp\<rparr>, Some Assert_0x30a))
   \<and> (\<not> shouldClientJoinWrite h \<and> hasTimer (prevClientLeftTimer h) \<and> m \<noteq> Write \<longrightarrow>
        receivedConnectEvent m d h = (h\<lparr>connectionState := CatchingUp\<rparr>, Some Assert_0x2a6))
   \<and> ((shouldClientJoinWrite h \<longrightarrow> m = Write) \<and> (hasTimer (prevClientLeftTimer h) \<longrightarrow> m = Write) \<longrightarrow>
        pendingClientId (fst (receivedConnectEvent m d h)) = Some (details_clientId d)
        \<and> take (Suc (length (emitted h))) (emitted (fst (receivedConnectEvent m d h))) =
             emitted h @ [ConnectionStateChanged CatchingUp (connectionState h) None]
        \<and> (\<not> hasTimer (joinOpTimer h) \<longrightarrow> snd (receivedConnectEvent m d h) = None)
        \<and> (m = Write \<and> getMember_opt (quorumClients h) (details_clientId d) = None
             \<and> hasTimer (joinOpTimer h) \<longrightarrow>
               snd (receivedConnectEvent m d h) = Some Assert_0x234)
        \<and> (\<not> (m = Write \<and> getMember_opt (quorumClients h) (details_clientId d) = None
                \<and> hasTimer (joinOpTimer h)) \<longrightarrow>
               snd (receivedConnectEvent m d h) = None))
   \<and> (connectionState h \<noteq> Disconnected \<longrightarrow> \<not> legal_transition (connectionState h) CatchingUp)
   \<and> (catchup_connectionState g \<noteq> Disconnected \<longrightarrow>
        connectionStateChanged CatchingUp (connectionState h) None g =
          (g, Some Assert_connectivity_transitions))"
proof -
  have l: "connectionState h \<noteq> Disconnected \<longrightarrow> \<not> legal_transition (connectionState h) CatchingUp"
    by (cases "connectionState h") simp_all
  have g: "catchup_connectionState g \<noteq> Disconnected \<longrightarrow>
        connectionStateChanged CatchingUp (connectionState h) None g =
          (g, Some Assert_connectivity_transitions)"
    by simp
  have f1: "shouldClientJoinWrite h \<and> m \<noteq> Write \<longrightarrow>
        receivedConnectEvent m d h = (h\<lparr>connectionState := CatchingUp\<rparr>, Some Assert_0x30a)"
    by (simp add: receivedConnectEvent_fails_0x30a)
  have f2: "\<not> shouldClientJoinWrite h \<and> hasTimer (prevClientLeftTimer h) \<and> m \<noteq> Write \<longrightarrow>
        receivedConnectEvent m d h = (h\<lparr>connectionState := CatchingUp\<rparr>, Some Assert_0x2a6)"
    by (simp add: receivedConnectEvent_fails_0x2a6)
  define h3 where "h3 = emit (ConnectionStateChanged CatchingUp (connectionState h) None)
                 (h\<lparr>connectionState := CatchingUp, pendingClientId := Some (details_clientId d)\<rparr>)"
  have c3: "connectionState h3 = CatchingUp" by (simp add: h3_def)
  have g3: "pendingClientId h3 = Some (details_clientId d)"
    "emitted h3 = emitted h @ [ConnectionStateChanged CatchingUp (connectionState h) None]"
    "joinOpTimer h3 = joinOpTimer h"
    by (simp_all add: h3_def)
  have ok: "(shouldClientJoinWrite h \<longrightarrow> m = Write) \<and> (hasTimer (prevClientLeftTimer h) \<longrightarrow> m = Write) \<longrightarrow>
        (connectionState (fst (receivedConnectEvent m d h)) = CatchingUp
          \<or> connectionState (fst (receivedConnectEvent m d h)) = Connected)
        \<and> pendingClientId (fst (receivedConnectEvent m d h)) = Some (details_clientId d)
        \<and> take (Suc (length (emitted h))) (emitted (fst (receivedConnectEvent m d h))) =
             emitted h @ [ConnectionStateChanged CatchingUp (connectionState h) None]
        \<and> (\<not> hasTimer (joinOpTimer h) \<longrightarrow> snd (receivedConnectEvent m d h) = None)
        \<and> (m = Write \<and> getMember_opt (quorumClients h) (details_clientId d) = None
             \<and> hasTimer (joinOpTimer h) \<longrightarrow>
               snd (receivedConnectEvent m d h) = Some Assert_0x234)
        \<and> (\<not> (m = Write \<and> getMember_opt (quorumClients h) (details_clientId d) = None
                \<and> hasTimer (joinOpTimer h)) \<longrightarrow>
               snd (receivedConnectEvent m d h) = None)"
  proof
    assume p: "(shouldClientJoinWrite h \<longrightarrow> m = Write) \<and> (hasTimer (prevClientLeftTimer h) \<longrightarrow> m = Write)"
    have e: "receivedConnectEvent m d h =
        (if m = Write \<and> getMember_opt (quorumClients h) (details_clientId d) = None
         then startJoinOpTimer h3
         else if \<not> hasTimer (prevClientLeftTimer h) then setConnectionState Connected None h3
         else (h3, None))"
      using p receivedConnectEvent_eq [of h m d] by (simp add: Let_def h3_def)
    show "(connectionState (fst (receivedConnectEvent m d h)) = CatchingUp
          \<or> connectionState (fst (receivedConnectEvent m d h)) = Connected)
        \<and> pendingClientId (fst (receivedConnectEvent m d h)) = Some (details_clientId d)
        \<and> take (Suc (length (emitted h))) (emitted (fst (receivedConnectEvent m d h))) =
             emitted h @ [ConnectionStateChanged CatchingUp (connectionState h) None]
        \<and> (\<not> hasTimer (joinOpTimer h) \<longrightarrow> snd (receivedConnectEvent m d h) = None)
        \<and> (m = Write \<and> getMember_opt (quorumClients h) (details_clientId d) = None
             \<and> hasTimer (joinOpTimer h) \<longrightarrow>
               snd (receivedConnectEvent m d h) = Some Assert_0x234)
        \<and> (\<not> (m = Write \<and> getMember_opt (quorumClients h) (details_clientId d) = None
                \<and> hasTimer (joinOpTimer h)) \<longrightarrow>
               snd (receivedConnectEvent m d h) = None)"
      unfolding e
      by (auto simp add: startJoinOpTimer_def setConnectionState_Connected c3 g3)
  qed
  have st: "connectionState (fst (receivedConnectEvent m d h)) = CatchingUp
      \<or> connectionState (fst (receivedConnectEvent m d h)) = Connected"
  proof (cases "(shouldClientJoinWrite h \<longrightarrow> m = Write) \<and> (hasTimer (prevClientLeftTimer h) \<longrightarrow> m = Write)")
    case True
    then show ?thesis using ok by blast
  next
    case False
    show ?thesis using receivedConnectEvent_asserts_fail [OF False, of d] by simp
  qed
  have ok': "(shouldClientJoinWrite h \<longrightarrow> m = Write) \<and> (hasTimer (prevClientLeftTimer h) \<longrightarrow> m = Write) \<longrightarrow>
        pendingClientId (fst (receivedConnectEvent m d h)) = Some (details_clientId d)
        \<and> take (Suc (length (emitted h))) (emitted (fst (receivedConnectEvent m d h))) =
             emitted h @ [ConnectionStateChanged CatchingUp (connectionState h) None]
        \<and> (\<not> hasTimer (joinOpTimer h) \<longrightarrow> snd (receivedConnectEvent m d h) = None)
        \<and> (m = Write \<and> getMember_opt (quorumClients h) (details_clientId d) = None
             \<and> hasTimer (joinOpTimer h) \<longrightarrow>
               snd (receivedConnectEvent m d h) = Some Assert_0x234)
        \<and> (\<not> (m = Write \<and> getMember_opt (quorumClients h) (details_clientId d) = None
                \<and> hasTimer (joinOpTimer h)) \<longrightarrow>
               snd (receivedConnectEvent m d h) = None)"
    using ok by (intro impI) (drule (1) mp, elim conjE, intro conjI)
  from st f1 f2 ok' l g show ?thesis by (intro conjI)
qed

text \<open>
  A second connect event while \<open>Connected\<close> (scenario S4): the handler reports the
  transition from \<open>Connected\<close> to \<open>CatchingUp\<close>, which is not legal, and returns
  normally. A second connect event while \<open>CatchingUp\<close> and waiting for the join
  (scenario S2): the handler reports the transition from \<open>CatchingUp\<close> to \<open>CatchingUp\<close>
  and then fails assertion 0x234. The adapter of scenario S7, showing \<open>CatchingUp\<close>,
  refuses a report of a transition to \<open>CatchingUp\<close>.
\<close>

theorem connect_in_any_state_witness:
  "connectionState S4_connected = Connected
   \<and> connectionState (fst (receivedConnectEvent Write \<lparr>details_clientId = ''c_new''\<rparr> S4_connected)) = CatchingUp
   \<and> pendingClientId (fst (receivedConnectEvent Write \<lparr>details_clientId = ''c_new''\<rparr> S4_connected)) =
        Some ''c_new''
   \<and> take 3 (emitted (fst (receivedConnectEvent Write \<lparr>details_clientId = ''c_new''\<rparr> S4_connected))) =
        [ConnectionStateChanged CatchingUp Disconnected None,
         ConnectionStateChanged Connected CatchingUp None,
         ConnectionStateChanged CatchingUp Connected None]
   \<and> \<not> legal_transition Connected CatchingUp
   \<and> snd (receivedConnectEvent Write \<lparr>details_clientId = ''c_new''\<rparr> S4_connected) = None
   \<and> connectionState S2_waiting = CatchingUp
   \<and> hasTimer (joinOpTimer S2_waiting)
   \<and> emitted (fst (receivedConnectEvent Write \<lparr>details_clientId = ''c3''\<rparr> S2_waiting)) =
        [ConnectionStateChanged CatchingUp Disconnected None,
         ConnectionStateChanged CatchingUp CatchingUp None]
   \<and> snd (receivedConnectEvent Write \<lparr>details_clientId = ''c3''\<rparr> S2_waiting) = Some Assert_0x234
   \<and> catchup_connectionState S7_held_back = CatchingUp
   \<and> connectionStateChanged CatchingUp Connected None S7_held_back =
        (S7_held_back, Some Assert_connectivity_transitions)"
proof -
  have c: "catchup_connectionState S7_held_back = CatchingUp"
    by (simp add: S7_held_back_def S7_catching_up_def new_catchup_def forward_def new_handler_def
        CatchUpMonitor_new_def)
  show ?thesis
    using connect_in_any_state [of Write "\<lparr>details_clientId = ''c_new''\<rparr>" S4_connected S7_held_back]
      connect_in_any_state [of Write "\<lparr>details_clientId = ''c3''\<rparr>" S2_waiting S7_held_back]
      c
    by (simp add: S4_connected_eq S2_waiting_def handler_defs)
qed


end
